theory Spec2Isabelle
  imports Main
begin

section \<open>The script \<open>serve.py\<close>: start-up, serving and shutdown\<close>

text \<open>
  \<open>serve.py\<close> is a thin composition of calls into Python's standard library. The
  calls are the program's only effects, so \<open>main\<close> is modelled as a program over
  a trace of external calls: every call is appended to the trace when it is made, and
  the world (an oracle) decides whether it returns or raises. Exceptions are values
  (\<open>Raises e\<close>); a raised exception skips the rest of a sequence and is caught
  only by \<open>try_except\<close>, as in Python.
\<close>

subsection \<open>Values, exceptions, external calls\<close>

datatype exn = KeyboardInterrupt | OSError | OtherException

datatype pyval = PyNone | PyBool bool | PyObject

datatype 'a result = Returns 'a | Raises exn

text \<open>
  The five library entry points \<open>main\<close> reaches, with their arguments:
  \<open>HTTPServer(server_address, Handler)\<close> (which binds and listens in its
  constructor), \<open>print(s)\<close>, \<open>webbrowser.open(url)\<close>,
  \<open>httpd.serve_forever()\<close> and \<open>httpd.server_close()\<close>.
\<close>

datatype call =
    HTTPServer_init "string \<times> int"
  | Print string
  | Webbrowser_open string
  | Serve_forever
  | Server_close

type_synonym world = "call \<Rightarrow> pyval result"

type_synonym 'a prog = "world \<Rightarrow> call list \<Rightarrow> call list \<times> 'a result"

definition extern :: "call \<Rightarrow> pyval prog" where
  "extern c w tr = (tr @ [c], w c)"

definition ret :: "'a \<Rightarrow> 'a prog" where
  "ret v w tr = (tr, Returns v)"

definition seq :: "'a prog \<Rightarrow> ('a \<Rightarrow> 'b prog) \<Rightarrow> 'b prog" where
  "seq m f w tr =
     (case m w tr of
        (tr', Raises e) \<Rightarrow> (tr', Raises e)
      | (tr', Returns v) \<Rightarrow> f v w tr')"

text \<open>\<open>try: body except exc: handler\<close>, for one exception class.\<close>

definition try_except :: "'a prog \<Rightarrow> exn \<Rightarrow> 'a prog \<Rightarrow> 'a prog" where
  "try_except body exc handler w tr =
     (case body w tr of
        (tr', Raises e) \<Rightarrow> if e = exc then handler w tr' else (tr', Raises e)
      | (tr', Returns v) \<Rightarrow> (tr', Returns v))"

subsection \<open>Python's \<open>str\<close> of an integer, used by the f-strings\<close>

fun str_nat :: "nat \<Rightarrow> string" where
  "str_nat n =
     (if n < 10 then [''0123456789'' ! n]
      else str_nat (n div 10) @ [''0123456789'' ! (n mod 10)])"

declare str_nat.simps [simp del]

definition str_int :: "int \<Rightarrow> string" where
  "str_int i = (if i < 0 then CHR ''-'' # str_nat (nat (- i)) else str_nat (nat i))"

subsection \<open>\<open>main\<close>\<close>

definition PORT :: int where
  "PORT = 8000"

text \<open>
  \<^verbatim>\<open>
  def main():
      server_address = ('', PORT)
      httpd = HTTPServer(server_address, Handler)
      print(f"Starting server at http://localhost:{PORT}")
      print("Press Ctrl+C to stop the server")
      webbrowser.open(f"http://localhost:{PORT}")
      try:
          httpd.serve_forever()
      except KeyboardInterrupt:
          print("\nServer stopped")
          httpd.server_close()
  \<close>
\<close>

definition server_address :: "string \<times> int" where
  "server_address = ('''', PORT)"

definition main :: "unit prog" where
  "main =
     seq (extern (HTTPServer_init server_address)) (\<lambda>httpd.
     seq (extern (Print (''Starting server at http://localhost:'' @ str_int PORT))) (\<lambda>_.
     seq (extern (Print ''Press Ctrl+C to stop the server'')) (\<lambda>_.
     seq (extern (Webbrowser_open (''http://localhost:'' @ str_int PORT))) (\<lambda>_.
     try_except
       (seq (extern Serve_forever) (\<lambda>_. ret ()))
       KeyboardInterrupt
       (seq (extern (Print (CHR 0x0A # ''Server stopped''))) (\<lambda>_.
        seq (extern Server_close) (\<lambda>_. ret ())))))))"

text \<open>
  The process: \<open>if __name__ == "__main__": main()\<close>. The script imports
  \<open>sys\<close> and \<open>os\<close> but reads neither \<open>sys.argv\<close> nor
  \<open>os.environ\<close>, so the command line and the environment are arguments that
  the run does not look at. When \<open>main\<close> returns, the interpreter exits with
  status 0. An exception that leaves \<open>main\<close> is reported by the interpreter as a
  traceback on standard error and the exit status is not 0: 1 for an ordinary exception,
  and for \<open>KeyboardInterrupt\<close> the process ends as if killed by SIGINT, which a
  shell reports as 130.
\<close>

record process =
  calls :: "call list"
  traceback :: "exn option"
  exit_status :: nat

definition run_script :: "string list \<Rightarrow> (string \<rightharpoonup> string) \<Rightarrow> world \<Rightarrow> process" where
  "run_script argv environ w =
     (case main w [] of
        (tr, Returns _) \<Rightarrow> \<lparr>calls = tr, traceback = None, exit_status = 0\<rparr>
      | (tr, Raises e) \<Rightarrow>
          \<lparr>calls = tr, traceback = Some e,
           exit_status = (if e = KeyboardInterrupt then 130 else 1)\<rparr>)"

fun is_HTTPServer_init :: "call \<Rightarrow> bool" where
  "is_HTTPServer_init (HTTPServer_init _) = True"
| "is_HTTPServer_init _ = False"

text \<open>The strings and calls of a run, evaluated once.\<close>

definition bind_call :: call where
  "bind_call = HTTPServer_init ('''', 8000)"

definition announce_call :: call where
  "announce_call = Print ''Starting server at http://localhost:8000''"

definition hint_call :: call where
  "hint_call = Print ''Press Ctrl+C to stop the server''"

definition browser_call :: call where
  "browser_call = Webbrowser_open ''http://localhost:8000''"

definition stopped_call :: call where
  "stopped_call = Print (CHR 0x0A # ''Server stopped'')"

definition full_trace :: "call list" where
  "full_trace =
     [bind_call, announce_call, hint_call, browser_call, Serve_forever, stopped_call,
      Server_close]"

fun returned :: "'a result \<Rightarrow> bool" where
  "returned (Returns _) = True"
| "returned (Raises _) = False"

text \<open>Worlds used to run the script on concrete inputs.\<close>

definition quiet_world :: world where
  "quiet_world c = Returns PyNone"

definition interrupted_world :: world where
  "interrupted_world c =
     (if c = Serve_forever then Raises KeyboardInterrupt else Returns PyNone)"

definition port_in_use_world :: world where
  "port_in_use_world c = (if is_HTTPServer_init c then Raises OSError else Returns PyNone)"

definition no_browser_world :: world where
  "no_browser_world c =
     (if c = Serve_forever then Raises KeyboardInterrupt
      else if c = browser_call then Returns (PyBool False)
      else Returns PyNone)"

definition serve_error_world :: world where
  "serve_error_world c = (if c = Serve_forever then Raises OSError else Returns PyNone)"

definition early_interrupt_world :: world where
  "early_interrupt_world c =
     (if c = browser_call then Raises KeyboardInterrupt else Returns PyNone)"

definition broken_stdout_world :: world where
  "broken_stdout_world c =
     (if c = Serve_forever then Raises KeyboardInterrupt
      else if c = stopped_call then Raises OSError
      else Returns PyNone)"

definition browser_raises_world :: world where
  "browser_raises_world c = (if c = browser_call then Raises OSError else Returns PyNone)"

section \<open>The request handler\<close>

text \<open>
  \<^verbatim>\<open>
  class Handler(SimpleHTTPRequestHandler):
      def end_headers(self):
          # Add CORS headers for local development
          self.send_header('Access-Control-Allow-Origin', '*')
          SimpleHTTPRequestHandler.end_headers(self)
  \<close>
  \<open>Handler\<close> overrides one method and inherits everything else from
  \<open>http.server\<close>: what a response is, for which request, is decided by the
  inherited methods, which call \<open>self.end_headers()\<close>, that is, the override.
  The inherited methods are therefore embedded too, from the library's source
  (\<open>BaseHTTPRequestHandler\<close> and \<open>SimpleHTTPRequestHandler\<close> of
  CPython 3.11), with their names. Logging to standard error is left out; what the
  operating system and the pure helper functions of the library return is a parameter
  (\<open>env\<close>).
\<close>

subsection \<open>Strings\<close>

type_synonym bytes = string

definition CRLF :: string where
  "CRLF = [CHR 0x0D, CHR 0x0A]"

definition startswith :: "string \<Rightarrow> string \<Rightarrow> bool" where
  "startswith s p = (take (length p) s = p)"

definition endswith :: "string \<Rightarrow> string \<Rightarrow> bool" where
  "endswith s p = (length p \<le> length s \<and> drop (length s - length p) s = p)"

text \<open>\<open>str.lower\<close>; only the ASCII letters matter where the result is compared
  with an ASCII literal.\<close>

definition lower_char :: "char \<Rightarrow> char" where
  "lower_char c =
     (case map_of (zip ''ABCDEFGHIJKLMNOPQRSTUVWXYZ'' ''abcdefghijklmnopqrstuvwxyz'') c of
        Some d \<Rightarrow> d
      | None \<Rightarrow> c)"

definition lower :: "string \<Rightarrow> string" where
  "lower s = map lower_char s"

text \<open>\<open>str.isspace\<close> on the code points below 256 (the request line is decoded as
  iso-8859-1).\<close>

definition isspace :: "char \<Rightarrow> bool" where
  "isspace c \<longleftrightarrow>
     c \<in> set [CHR 0x09, CHR 0x0A, CHR 0x0B, CHR 0x0C, CHR 0x0D, CHR 0x1C, CHR 0x1D,
               CHR 0x1E, CHR 0x1F, CHR 0x20, CHR 0x85, CHR 0xA0]"

text \<open>\<open>s.split()\<close>: the maximal runs of non-whitespace characters.\<close>

fun words_from :: "string \<Rightarrow> string \<Rightarrow> string list" where
  "words_from cur [] = (if cur = [] then [] else [cur])"
| "words_from cur (c # cs) =
     (if isspace c then (if cur = [] then words_from [] cs else cur # words_from [] cs)
      else words_from (cur @ [c]) cs)"

definition split_ws :: "string \<Rightarrow> string list" where
  "split_ws s = words_from [] s"

text \<open>\<open>s.split(sep)\<close> for a one-character separator: empty pieces are kept.\<close>

fun split_char :: "char \<Rightarrow> string \<Rightarrow> string list" where
  "split_char sep [] = [[]]"
| "split_char sep (c # cs) =
     (if c = sep then [] # split_char sep cs
      else (case split_char sep cs of
              w # ws \<Rightarrow> (c # w) # ws
            | [] \<Rightarrow> [[c]]))"

text \<open>\<open>s.rstrip('\r\n')\<close>.\<close>

definition rstrip_crlf :: "string \<Rightarrow> string" where
  "rstrip_crlf s = rev (dropWhile (\<lambda>c. c = CHR 0x0D \<or> c = CHR 0x0A) (rev s))"

text \<open>\<open>str.isdigit\<close> below 256: the ASCII digits and the superscripts one, two
  and three. \<open>int\<close> accepts only the former of these and raises
  \<open>ValueError\<close> (\<open>None\<close>) otherwise.\<close>

definition isdigit :: "string \<Rightarrow> bool" where
  "isdigit s \<longleftrightarrow> s \<noteq> [] \<and> list_all (\<lambda>c. c \<in> set (''0123456789'' @ [CHR 0xB2, CHR 0xB3, CHR 0xB9])) s"

definition digit_value :: "char \<Rightarrow> nat option" where
  "digit_value c = map_of (zip ''0123456789'' [0, 1, 2, 3, 4, 5, 6, 7, 8, 9]) c"

fun int_digits :: "nat \<Rightarrow> string \<Rightarrow> nat option" where
  "int_digits acc [] = Some acc"
| "int_digits acc (c # cs) =
     (case digit_value c of None \<Rightarrow> None | Some d \<Rightarrow> int_digits (10 * acc + d) cs)"

definition int_py :: "string \<Rightarrow> nat option" where
  "int_py s = (if s = [] then None else int_digits 0 s)"

text \<open>Comparison of strings, as Python orders them (by code point).\<close>

fun str_le :: "string \<Rightarrow> string \<Rightarrow> bool" where
  "str_le [] _ = True"
| "str_le (a # as) [] = False"
| "str_le (a # as) (b # bs) =
     (if a = b then str_le as bs else (of_char a :: nat) < of_char b)"

text \<open>\<open>posixpath.join\<close> of two components.\<close>

definition join :: "string \<Rightarrow> string \<Rightarrow> string" where
  "join a b =
     (if startswith b ''/'' then b
      else if a = [] \<or> endswith a ''/'' then a @ b
      else a @ ''/'' @ b)"

subsection \<open>The handler's state and its environment\<close>

text \<open>
  What is written to the client: \<open>wfile\<close> records each \<open>write\<close>. The
  header block is written by \<open>flush_headers\<close> as
  \<open>b"".join(self._headers_buffer)\<close>; it is recorded with the lines it joins.
\<close>

datatype written = WriteJoined "bytes list" | Write bytes

fun written_bytes :: "written \<Rightarrow> bytes" where
  "written_bytes (WriteJoined ls) = concat ls"
| "written_bytes (Write b) = b"

fun header_blocks :: "written list \<Rightarrow> bytes list list" where
  "header_blocks [] = []"
| "header_blocks (WriteJoined ls # ws) = ls # header_blocks ws"
| "header_blocks (Write b # ws) = header_blocks ws"

fun body_bytes :: "written list \<Rightarrow> bytes" where
  "body_bytes [] = []"
| "body_bytes (WriteJoined ls # ws) = body_bytes ws"
| "body_bytes (Write b # ws) = b @ body_bytes ws"

record fileobj =
  content :: bytes
  st_mtime :: int
  readable :: bool

text \<open>What the operating system finds at a path name: a regular file, or a directory
  with its entries (\<open>None\<close> when it may not be listed).\<close>

datatype node = File fileobj | Directory "string list option"

text \<open>The request headers the handler looks at.\<close>

record req_headers =
  Connection :: "string option"
  Expect :: "string option"
  If_Modified_Since :: "string option"
  If_None_Match :: "string option"

text \<open>The outcome of \<open>http.client.parse_headers\<close> on the lines after the request
  line: the headers, or one of the two exceptions \<open>parse_request\<close> catches, with
  its text.\<close>

datatype headers_result = Headers req_headers | LineTooLong string | HTTPException string

text \<open>\<open>email.utils.parsedate_to_datetime\<close> as \<open>send_head\<close> uses it: the
  value is ill-formed (an exception, ignored), or a time in another zone than UTC
  (ignored), or a UTC time in seconds (a value without zone counts as UTC).\<close>

datatype ims = IllFormed | OtherZone | Utc int

text \<open>
  The exceptions that no method of the handler catches. \<open>AttributeError\<close>: the
  inherited \<open>end_headers\<close> on a handler without header buffer.
  \<open>ValueError\<close>: \<open>open\<close> on a path with a null character,
  \<open>urlsplit\<close> on a URL with a malformed bracketed host.
  \<open>UnicodeEncodeError\<close>: \<open>open\<close> on a path with a character that the
  file system encoding has no bytes for (a lone surrogate, which \<open>unquote\<close>
  makes of \<open>%ED%A0%80\<close>), and the encoding of a directory listing whose title
  has such a character.
\<close>

datatype handler_error = AttributeError | ValueError | UnicodeEncodeError

text \<open>
  What the handler asks of the operating system and of the library's pure functions.
  \<open>open_refuses env p\<close> is the exception with which \<open>open\<close> refuses the
  path name \<open>p\<close> before the file system is asked, if it does;
  \<open>urlsplit_path env url\<close> is \<open>urlsplit(url).path\<close> or the exception of
  \<open>urlsplit\<close>; \<open>redirect_url env url\<close> is the URL put together again
  with a slash added to its path; \<open>listing_page env p url names\<close> is the encoded
  page that lists a directory, or the exception of the encoding.
\<close>

record env =
  stat :: "string \<rightharpoonup> node"
  translate_path :: "string \<Rightarrow> string"
  guess_type :: "string \<Rightarrow> string"
  urlsplit_path :: "string \<Rightarrow> handler_error + string"
  redirect_url :: "string \<Rightarrow> string"
  version_string :: string
  date_time_string :: "int option \<Rightarrow> string"
  parsedate :: "string \<Rightarrow> ims"
  error_page :: "nat \<Rightarrow> string \<Rightarrow> string \<Rightarrow> bytes"
  listing_page :: "string \<Rightarrow> string \<Rightarrow> string list \<Rightarrow> handler_error + bytes"
  open_refuses :: "string \<Rightarrow> handler_error option"
  filesystemencoding :: string
  repr :: "string \<Rightarrow> string"

record request =
  raw_requestline :: bytes
  header_lines :: headers_result

record handler =
  requestline :: string
  request_version :: string
  command :: "string option"
  path :: string
  headers :: req_headers
  close_connection :: bool
  headers_buffer :: "bytes list option"
  wfile :: "written list"

definition isdir :: "env \<Rightarrow> string \<Rightarrow> bool" where
  "isdir env p = (case stat env p of Some (Directory _) \<Rightarrow> True | _ \<Rightarrow> False)"

definition isfile :: "env \<Rightarrow> string \<Rightarrow> bool" where
  "isfile env p = (case stat env p of Some (File _) \<Rightarrow> True | _ \<Rightarrow> False)"

text \<open>
  \<open>open(path, 'rb')\<close>: the file, or \<open>OSError\<close> (nothing there, a
  directory, or no permission to read), or the exception with which the path name is
  refused; \<open>send_head\<close> catches \<open>OSError\<close> only.
\<close>

datatype opened = Opened fileobj | OpenOSError | OpenRaised handler_error

definition open_rb :: "env \<Rightarrow> string \<Rightarrow> opened" where
  "open_rb env p =
     (case open_refuses env p of
        Some e \<Rightarrow> OpenRaised e
      | None \<Rightarrow>
          (case stat env p of
             Some (File f) \<Rightarrow> if readable f then Opened f else OpenOSError
           | _ \<Rightarrow> OpenOSError))"

text \<open>\<open>os.listdir(path)\<close>: \<open>None\<close> is \<open>OSError\<close>.\<close>

definition listdir :: "env \<Rightarrow> string \<Rightarrow> string list option" where
  "listdir env p = (case stat env p of Some (Directory names) \<Rightarrow> names | _ \<Rightarrow> None)"

text \<open>
  What a method of the handler does: it returns a value and leaves the handler in a
  state, or an exception leaves it, with the handler in the state it had then.
\<close>

datatype 'a outcome = Ok 'a handler | Exc handler_error handler

definition and_then :: "'a outcome \<Rightarrow> ('a \<Rightarrow> handler \<Rightarrow> 'b outcome) \<Rightarrow> 'b outcome" where
  "and_then m f = (case m of Ok v h \<Rightarrow> f v h | Exc e h \<Rightarrow> Exc e h)"

fun final :: "'a outcome \<Rightarrow> handler" where
  "final (Ok v h) = h"
| "final (Exc e h) = h"

fun completed :: "'a outcome \<Rightarrow> bool" where
  "completed (Ok v h) = True"
| "completed (Exc e h) = False"

subsection \<open>\<open>BaseHTTPRequestHandler\<close>: building a response\<close>

definition protocol_version :: string where
  "protocol_version = ''HTTP/1.0''"

definition default_request_version :: string where
  "default_request_version = ''HTTP/0.9''"

definition error_content_type :: string where
  "error_content_type = ''text/html;charset=utf-8''"

text \<open>
  \<open>self.responses\<close> maps every member of \<open>HTTPStatus\<close> to its phrase and
  its description; these are the members the handler's paths use.
\<close>

definition responses :: "nat \<Rightarrow> (string \<times> string) option" where
  "responses code =
     (if code = 100 then Some (''Continue'', ''Request received, please continue'')
      else if code = 200 then Some (''OK'', ''Request fulfilled, document follows'')
      else if code = 301 then
        Some (''Moved Permanently'', ''Object moved permanently -- see URI list'')
      else if code = 304 then
        Some (''Not Modified'', ''Document has not changed since given time'')
      else if code = 400 then
        Some (''Bad Request'', ''Bad request syntax or unsupported method'')
      else if code = 404 then Some (''Not Found'', ''Nothing matches the given URI'')
      else if code = 414 then Some (''Request-URI Too Long'', ''URI is too long'')
      else if code = 431 then
        Some (''Request Header Fields Too Large'',
              ''The server is unwilling to process the request because its header ''
              @ ''fields are too large'')
      else if code = 501 then
        Some (''Not Implemented'', ''Server does not support this operation'')
      else if code = 505 then
        Some (''HTTP Version Not Supported'', ''Cannot fulfill request'')
      else None)"

text \<open>
  \<^verbatim>\<open>
  def send_response_only(self, code, message=None):
      if self.request_version != 'HTTP/0.9':
          if message is None:
              if code in self.responses:
                  message = self.responses[code][0]
              else:
                  message = ''
          if not hasattr(self, '_headers_buffer'):
              self._headers_buffer = []
          self._headers_buffer.append(("%s %d %s\r\n" %
                  (self.protocol_version, code, message)).encode(
                      'latin-1', 'strict'))
  \<close>
  The attribute \<open>_headers_buffer\<close> is \<open>None\<close> while it is not set.
\<close>

definition buffer_append :: "bytes \<Rightarrow> handler \<Rightarrow> handler" where
  "buffer_append line h =
     h\<lparr>headers_buffer :=
         Some ((case headers_buffer h of None \<Rightarrow> [] | Some buf \<Rightarrow> buf) @ [line])\<rparr>"

definition status_line :: "nat \<Rightarrow> string \<Rightarrow> bytes" where
  "status_line code message =
     protocol_version @ '' '' @ str_nat code @ '' '' @ message @ CRLF"

definition send_response_only :: "nat \<Rightarrow> string option \<Rightarrow> handler \<Rightarrow> handler" where
  "send_response_only code message h =
     (if request_version h \<noteq> ''HTTP/0.9'' then
        buffer_append
          (status_line code
             (case message of
                None \<Rightarrow> (case responses code of Some (short, long) \<Rightarrow> short | None \<Rightarrow> '''')
              | Some m \<Rightarrow> m))
          h
      else h)"

text \<open>
  \<^verbatim>\<open>
  def send_header(self, keyword, value):
      if self.request_version != 'HTTP/0.9':
          if not hasattr(self, '_headers_buffer'):
              self._headers_buffer = []
          self._headers_buffer.append(
              ("%s: %s\r\n" % (keyword, value)).encode('latin-1', 'strict'))
      if keyword.lower() == 'connection':
          if value.lower() == 'close':
              self.close_connection = True
          elif value.lower() == 'keep-alive':
              self.close_connection = False
  \<close>
\<close>

definition header_line :: "string \<Rightarrow> string \<Rightarrow> bytes" where
  "header_line keyword val = keyword @ '': '' @ val @ CRLF"

definition send_header :: "string \<Rightarrow> string \<Rightarrow> handler \<Rightarrow> handler" where
  "send_header keyword val h =
     (let h1 = (if request_version h \<noteq> ''HTTP/0.9''
                then buffer_append (header_line keyword val) h else h)
      in if lower keyword = ''connection'' then
           (if lower val = ''close'' then h1\<lparr>close_connection := True\<rparr>
            else if lower val = ''keep-alive'' then h1\<lparr>close_connection := False\<rparr>
            else h1)
         else h1)"

text \<open>
  \<^verbatim>\<open>
  def flush_headers(self):
      if hasattr(self, '_headers_buffer'):
          self.wfile.write(b"".join(self._headers_buffer))
          self._headers_buffer = []
  \<close>
\<close>

definition flush_headers :: "handler \<Rightarrow> handler" where
  "flush_headers h =
     (case headers_buffer h of
        None \<Rightarrow> h
      | Some buf \<Rightarrow> h\<lparr>wfile := wfile h @ [WriteJoined buf], headers_buffer := Some []\<rparr>)"

text \<open>
  The inherited \<open>end_headers\<close>; \<open>append\<close> on an attribute that is not
  set raises \<open>AttributeError\<close>.
  \<^verbatim>\<open>
  def end_headers(self):
      if self.request_version != 'HTTP/0.9':
          self._headers_buffer.append(b"\r\n")
          self.flush_headers()
  \<close>
\<close>

definition SimpleHTTPRequestHandler_end_headers :: "handler \<Rightarrow> unit outcome" where
  "SimpleHTTPRequestHandler_end_headers h =
     (if request_version h \<noteq> ''HTTP/0.9'' then
        (case headers_buffer h of
           None \<Rightarrow> Exc AttributeError h
         | Some buf \<Rightarrow> Ok () (flush_headers (h\<lparr>headers_buffer := Some (buf @ [CRLF])\<rparr>)))
      else Ok () h)"

text \<open>The override of \<open>serve.py\<close>.\<close>

definition end_headers :: "handler \<Rightarrow> unit outcome" where
  "end_headers h =
     SimpleHTTPRequestHandler_end_headers (send_header ''Access-Control-Allow-Origin'' ''*'' h)"

definition cors_line :: bytes where
  "cors_line = header_line ''Access-Control-Allow-Origin'' ''*''"

text \<open>
  \<^verbatim>\<open>
  def send_response(self, code, message=None):
      self.log_request(code)
      self.send_response_only(code, message)
      self.send_header('Server', self.version_string())
      self.send_header('Date', self.date_time_string())
  \<close>
\<close>

definition send_response :: "env \<Rightarrow> nat \<Rightarrow> string option \<Rightarrow> handler \<Rightarrow> handler" where
  "send_response env code message h =
     send_header ''Date'' (date_time_string env None)
       (send_header ''Server'' (version_string env)
          (send_response_only code message h))"

text \<open>
  \<^verbatim>\<open>
  def send_error(self, code, message=None, explain=None):
      try:
          shortmsg, longmsg = self.responses[code]
      except KeyError:
          shortmsg, longmsg = '???', '???'
      if message is None:
          message = shortmsg
      if explain is None:
          explain = longmsg
      self.log_error("code %d, message %s", code, message)
      self.send_response(code, message)
      self.send_header('Connection', 'close')
      body = None
      if (code >= 200 and
          code not in (HTTPStatus.NO_CONTENT,
                       HTTPStatus.RESET_CONTENT,
                       HTTPStatus.NOT_MODIFIED)):
          content = (self.error_message_format % {
              'code': code,
              'message': html.escape(message, quote=False),
              'explain': html.escape(explain, quote=False)
          })
          body = content.encode('UTF-8', 'replace')
          self.send_header("Content-Type", self.error_content_type)
          self.send_header('Content-Length', str(len(body)))
      self.end_headers()
      if self.command != 'HEAD' and body:
          self.wfile.write(body)
  \<close>
  The page that the format, the escaping and the encoding produce is
  \<open>error_page env code message explain\<close>.
\<close>

definition write_body :: "bytes \<Rightarrow> handler \<Rightarrow> handler" where
  "write_body b h = h\<lparr>wfile := wfile h @ [Write b]\<rparr>"

definition send_error ::
  "env \<Rightarrow> nat \<Rightarrow> string option \<Rightarrow> string option \<Rightarrow> handler \<Rightarrow> unit outcome" where
  "send_error env code message explain h =
     (let (shortmsg, longmsg) =
            (case responses code of Some p \<Rightarrow> p | None \<Rightarrow> (''???'', ''???''));
          message = (case message of None \<Rightarrow> shortmsg | Some m \<Rightarrow> m);
          explain = (case explain of None \<Rightarrow> longmsg | Some x \<Rightarrow> x);
          h1 = send_header ''Connection'' ''close'' (send_response env code (Some message) h);
          body = (if code \<ge> 200 \<and> code \<noteq> 204 \<and> code \<noteq> 205 \<and> code \<noteq> 304
                  then Some (error_page env code message explain) else None);
          h2 = (case body of
                  None \<Rightarrow> h1
                | Some b \<Rightarrow>
                    send_header ''Content-Length'' (str_nat (length b))
                      (send_header ''Content-Type'' error_content_type h1))
      in and_then (end_headers h2) (\<lambda>_ h3.
           Ok () (case body of
                    None \<Rightarrow> h3
                  | Some b \<Rightarrow>
                      if command h3 \<noteq> Some ''HEAD'' \<and> b \<noteq> [] then write_body b h3 else h3)))"

subsection \<open>\<open>SimpleHTTPRequestHandler\<close>: serving files\<close>

text \<open>A statement followed by \<open>return v\<close>.\<close>

definition returning :: "'a \<Rightarrow> unit outcome \<Rightarrow> 'a outcome" where
  "returning v m = and_then m (\<lambda>_ h. Ok v h)"

text \<open>
  \<^verbatim>\<open>
  def list_directory(self, path):
      try:
          list = os.listdir(path)
      except OSError:
          self.send_error(
              HTTPStatus.NOT_FOUND,
              "No permission to list directory")
          return None
      ...                       # the page, from path, self.path and list
      encoded = '\n'.join(r).encode(enc, 'surrogateescape')
      f = io.BytesIO()
      f.write(encoded)
      f.seek(0)
      self.send_response(HTTPStatus.OK)
      self.send_header("Content-type", "text/html; charset=%s" % enc)
      self.send_header("Content-Length", str(len(encoded)))
      self.end_headers()
      return f
  \<close>
  A returned file object is modelled by the bytes that can be read from it.
\<close>

definition list_directory :: "env \<Rightarrow> string \<Rightarrow> handler \<Rightarrow> bytes option outcome" where
  "list_directory env p h =
     (case listdir env p of
        None \<Rightarrow>
          returning None (send_error env 404 (Some ''No permission to list directory'') None h)
      | Some names \<Rightarrow>
          (case listing_page env p (path h) names of
             Inl e \<Rightarrow> Exc e h
           | Inr encoded \<Rightarrow>
               (let h1 = send_response env 200 None h;
                    h2 = send_header ''Content-type''
                           (''text/html; charset='' @ filesystemencoding env) h1;
                    h3 = send_header ''Content-Length'' (str_nat (length encoded)) h2
                in returning (Some encoded) (end_headers h3))))"

text \<open>
  The second half of \<open>send_head\<close>, for the path of a file:
  \<^verbatim>\<open>
      ctype = self.guess_type(path)
      if path.endswith("/"):
          self.send_error(HTTPStatus.NOT_FOUND, "File not found")
          return None
      try:
          f = open(path, 'rb')
      except OSError:
          self.send_error(HTTPStatus.NOT_FOUND, "File not found")
          return None
      try:
          fs = os.fstat(f.fileno())
          # Use browser cache if possible
          if ("If-Modified-Since" in self.headers
                  and "If-None-Match" not in self.headers):
              # compare If-Modified-Since and time of last file modification
              try:
                  ims = email.utils.parsedate_to_datetime(
                      self.headers["If-Modified-Since"])
              except (TypeError, IndexError, OverflowError, ValueError):
                  # ignore ill-formed values
                  pass
              else:
                  if ims.tzinfo is None:
                      ims = ims.replace(tzinfo=datetime.timezone.utc)
                  if ims.tzinfo is datetime.timezone.utc:
                      # compare to UTC datetime of last modification
                      last_modif = datetime.datetime.fromtimestamp(
                          fs.st_mtime, datetime.timezone.utc)
                      # remove microseconds, like in If-Modified-Since
                      last_modif = last_modif.replace(microsecond=0)
                      if last_modif <= ims:
                          self.send_response(HTTPStatus.NOT_MODIFIED)
                          self.end_headers()
                          f.close()
                          return None
          self.send_response(HTTPStatus.OK)
          self.send_header("Content-type", ctype)
          self.send_header("Content-Length", str(fs[6]))
          self.send_header("Last-Modified",
              self.date_time_string(fs.st_mtime))
          self.end_headers()
          return f
      except:
          f.close()
          raise
  \<close>
  \<open>st_mtime\<close> is the modification time in whole seconds; \<open>fs[6]\<close> is the
  size, the length of the content.
\<close>

definition not_modified :: "env \<Rightarrow> req_headers \<Rightarrow> fileobj \<Rightarrow> bool" where
  "not_modified env hs f =
     (case If_Modified_Since hs of
        None \<Rightarrow> False
      | Some v \<Rightarrow>
          If_None_Match hs = None \<and>
          (case parsedate env v of Utc t \<Rightarrow> st_mtime f \<le> t | _ \<Rightarrow> False))"

definition send_head_file :: "env \<Rightarrow> string \<Rightarrow> handler \<Rightarrow> bytes option outcome" where
  "send_head_file env p h =
     (let ctype = guess_type env p in
      if endswith p ''/'' then
        returning None (send_error env 404 (Some ''File not found'') None h)
      else
        (case open_rb env p of
           OpenRaised e \<Rightarrow> Exc e h
         | OpenOSError \<Rightarrow>
             returning None (send_error env 404 (Some ''File not found'') None h)
         | Opened f \<Rightarrow>
             if not_modified env (headers h) f then
               returning None (end_headers (send_response env 304 None h))
             else
               (let h1 = send_response env 200 None h;
                    h2 = send_header ''Content-type'' ctype h1;
                    h3 = send_header ''Content-Length'' (str_nat (length (content f))) h2;
                    h4 = send_header ''Last-Modified''
                           (date_time_string env (Some (st_mtime f))) h3
                in returning (Some (content f)) (end_headers h4))))"

text \<open>
  The first half of \<open>send_head\<close>:
  \<^verbatim>\<open>
  def send_head(self):
      path = self.translate_path(self.path)
      f = None
      if os.path.isdir(path):
          parts = urllib.parse.urlsplit(self.path)
          if not parts.path.endswith('/'):
              # redirect browser - doing basically what apache does
              self.send_response(HTTPStatus.MOVED_PERMANENTLY)
              new_parts = (parts[0], parts[1], parts[2] + '/',
                           parts[3], parts[4])
              new_url = urllib.parse.urlunsplit(new_parts)
              self.send_header("Location", new_url)
              self.send_header("Content-Length", "0")
              self.end_headers()
              return None
          for index in "index.html", "index.htm":
              index = os.path.join(path, index)
              if os.path.isfile(index):
                  path = index
                  break
          else:
              return self.list_directory(path)
      ctype = self.guess_type(path)
      ...
  \<close>
  An exception of \<open>urlsplit\<close> leaves the method before anything is sent.
\<close>

definition send_head :: "env \<Rightarrow> handler \<Rightarrow> bytes option outcome" where
  "send_head env h =
     (let p = translate_path env (path h) in
      if isdir env p then
        (case urlsplit_path env (path h) of
           Inl e \<Rightarrow> Exc e h
         | Inr parts_path \<Rightarrow>
             if \<not> endswith parts_path ''/'' then
               (let h1 = send_response env 301 None h;
                    h2 = send_header ''Location'' (redirect_url env (path h)) h1;
                    h3 = send_header ''Content-Length'' ''0'' h2
                in returning None (end_headers h3))
             else
               (case find (\<lambda>index. isfile env index)
                       (map (join p) [''index.html'', ''index.htm'']) of
                  Some index \<Rightarrow> send_head_file env index h
                | None \<Rightarrow> list_directory env p h))
      else send_head_file env p h)"

text \<open>
  \<^verbatim>\<open>
  def do_GET(self):
      f = self.send_head()
      if f:
          try:
              self.copyfile(f, self.wfile)
          finally:
              f.close()

  def do_HEAD(self):
      f = self.send_head()
      if f:
          f.close()
  \<close>
  \<open>copyfile\<close> writes what it reads from the file, in pieces; the pieces are
  recorded as one \<open>Write\<close>, and nothing is written for a file without content.
\<close>

definition copyfile :: "bytes \<Rightarrow> handler \<Rightarrow> handler" where
  "copyfile data h = (if data = [] then h else write_body data h)"

definition do_GET :: "env \<Rightarrow> handler \<Rightarrow> unit outcome" where
  "do_GET env h =
     and_then (send_head env h) (\<lambda>f h1.
       Ok () (case f of None \<Rightarrow> h1 | Some data \<Rightarrow> copyfile data h1))"

definition do_HEAD :: "env \<Rightarrow> handler \<Rightarrow> unit outcome" where
  "do_HEAD env h = and_then (send_head env h) (\<lambda>f h1. Ok () h1)"

subsection \<open>\<open>BaseHTTPRequestHandler\<close>: reading a request\<close>

text \<open>
  The version check of \<open>parse_request\<close>; \<open>None\<close> is \<open>ValueError\<close>.
  \<^verbatim>\<open>
              if not version.startswith('HTTP/'):
                  raise ValueError
              base_version_number = version.split('/', 1)[1]
              version_number = base_version_number.split(".")
              if len(version_number) != 2:
                  raise ValueError
              if any(not component.isdigit() for component in version_number):
                  raise ValueError("non digit in http version")
              if any(len(component) > 10 for component in version_number):
                  raise ValueError("unreasonable length http version")
              version_number = int(version_number[0]), int(version_number[1])
  \<close>
\<close>

definition base_version_number :: "string \<Rightarrow> string" where
  "base_version_number version = drop 1 (dropWhile (\<lambda>c. c \<noteq> CHR ''/'') version)"

definition version_number :: "string \<Rightarrow> (nat \<times> nat) option" where
  "version_number version =
     (if \<not> startswith version ''HTTP/'' then None
      else
        (let comps = split_char CHR ''.'' (base_version_number version) in
         if length comps \<noteq> 2 then None
         else if list_ex (\<lambda>component. \<not> isdigit component) comps then None
         else if list_ex (\<lambda>component. length component > 10) comps then None
         else
           (case (int_py (comps ! 0), int_py (comps ! 1)) of
              (Some major, Some minor) \<Rightarrow> Some (major, minor)
            | _ \<Rightarrow> None)))"

text \<open>
  \<^verbatim>\<open>
  def handle_expect_100(self):
      self.send_response_only(HTTPStatus.CONTINUE)
      self.end_headers()
      return True
  \<close>
\<close>

definition handle_expect_100 :: "handler \<Rightarrow> bool outcome" where
  "handle_expect_100 h = returning True (end_headers (send_response_only 100 None h))"

text \<open>
  \<open>parse_request\<close>, in three steps. The first one reads the request line up to the
  version:
  \<^verbatim>\<open>
      self.command = None  # set in case of error on the first line
      self.request_version = version = self.default_request_version
      self.close_connection = True
      requestline = str(self.raw_requestline, 'iso-8859-1')
      requestline = requestline.rstrip('\r\n')
      self.requestline = requestline
      words = requestline.split()
      if len(words) == 0:
          return False
      if len(words) >= 3:  # Enough to determine protocol version
          version = words[-1]
          try:
              ...
          except (ValueError, IndexError):
              self.send_error(
                  HTTPStatus.BAD_REQUEST,
                  "Bad request version (%r)" % version)
              return False
          if version_number >= (1, 1) and self.protocol_version >= "HTTP/1.1":
              self.close_connection = False
          if version_number >= (2, 0):
              self.send_error(
                  HTTPStatus.HTTP_VERSION_NOT_SUPPORTED,
                  "Invalid HTTP version (%s)" % base_version_number)
              return False
          self.request_version = version
  \<close>
  A step returns \<open>False\<close> where the source returns \<open>False\<close>, and
  \<open>True\<close> where it goes on.
\<close>

definition parse_version :: "env \<Rightarrow> string list \<Rightarrow> handler \<Rightarrow> bool outcome" where
  "parse_version env words h =
     (if length words \<ge> 3 then
        (let version = last words in
         case version_number version of
           None \<Rightarrow>
             returning False
               (send_error env 400
                  (Some (''Bad request version ('' @ repr env version @ '')'')) None h)
         | Some (major, minor) \<Rightarrow>
             (let h1 = (if (major > 1 \<or> major = 1 \<and> minor \<ge> 1)
                           \<and> str_le ''HTTP/1.1'' protocol_version
                        then h\<lparr>close_connection := False\<rparr> else h)
              in if major \<ge> 2 then
                   returning False
                     (send_error env 505
                        (Some (''Invalid HTTP version ('' @ base_version_number version
                               @ '')'')) None h1)
                 else Ok True (h1\<lparr>request_version := version\<rparr>)))
      else Ok True h)"

text \<open>
  The second step: command and path.
  \<^verbatim>\<open>
      if not 2 <= len(words) <= 3:
          self.send_error(
              HTTPStatus.BAD_REQUEST,
              "Bad request syntax (%r)" % requestline)
          return False
      command, path = words[:2]
      if len(words) == 2:
          self.close_connection = True
          if command != 'GET':
              self.send_error(
                  HTTPStatus.BAD_REQUEST,
                  "Bad HTTP/0.9 request type (%r)" % command)
              return False
      self.command, self.path = command, path
      if self.path.startswith('//'):
          self.path = '/' + self.path.lstrip('/')  # Reduce to a single /
  \<close>
\<close>

definition reduce_slashes :: "string \<Rightarrow> string" where
  "reduce_slashes pth =
     (if startswith pth ''//'' then ''/'' @ dropWhile (\<lambda>c. c = CHR ''/'') pth else pth)"

definition parse_command :: "env \<Rightarrow> string list \<Rightarrow> handler \<Rightarrow> bool outcome" where
  "parse_command env words h =
     (if \<not> (2 \<le> length words \<and> length words \<le> 3) then
        returning False
          (send_error env 400
             (Some (''Bad request syntax ('' @ repr env (requestline h) @ '')'')) None h)
      else
        (let cmd = words ! 0; pth = words ! 1;
             h1 = (if length words = 2 then h\<lparr>close_connection := True\<rparr> else h)
         in if length words = 2 \<and> cmd \<noteq> ''GET'' then
              returning False
                (send_error env 400
                   (Some (''Bad HTTP/0.9 request type ('' @ repr env cmd @ '')'')) None h1)
            else
              Ok True (h1\<lparr>command := Some cmd, path := reduce_slashes pth\<rparr>)))"

text \<open>
  The third step: the headers.
  \<^verbatim>\<open>
      try:
          self.headers = http.client.parse_headers(self.rfile,
                                                   _class=self.MessageClass)
      except http.client.LineTooLong as err:
          self.send_error(
              HTTPStatus.REQUEST_HEADER_FIELDS_TOO_LARGE,
              "Line too long",
              str(err))
          return False
      except http.client.HTTPException as err:
          self.send_error(
              HTTPStatus.REQUEST_HEADER_FIELDS_TOO_LARGE,
              "Too many headers",
              str(err)
          )
          return False
      conntype = self.headers.get('Connection', "")
      if conntype.lower() == 'close':
          self.close_connection = True
      elif (conntype.lower() == 'keep-alive' and
            self.protocol_version >= "HTTP/1.1"):
          self.close_connection = False
      # Examine the headers and look for an Expect directive
      expect = self.headers.get('Expect', "")
      if (expect.lower() == "100-continue" and
              self.protocol_version >= "HTTP/1.1" and
              self.request_version >= "HTTP/1.1"):
          if not self.handle_expect_100():
              return False
      return True
  \<close>
\<close>

definition parse_headers :: "env \<Rightarrow> headers_result \<Rightarrow> handler \<Rightarrow> bool outcome" where
  "parse_headers env hr h =
     (case hr of
        LineTooLong err \<Rightarrow>
          returning False (send_error env 431 (Some ''Line too long'') (Some err) h)
      | HTTPException err \<Rightarrow>
          returning False (send_error env 431 (Some ''Too many headers'') (Some err) h)
      | Headers hs \<Rightarrow>
          (let h1 = h\<lparr>headers := hs\<rparr>;
               conntype = (case Connection hs of None \<Rightarrow> '''' | Some v \<Rightarrow> v);
               h2 = (if lower conntype = ''close'' then h1\<lparr>close_connection := True\<rparr>
                     else if lower conntype = ''keep-alive''
                             \<and> str_le ''HTTP/1.1'' protocol_version
                     then h1\<lparr>close_connection := False\<rparr>
                     else h1);
               expect = (case Expect hs of None \<Rightarrow> '''' | Some v \<Rightarrow> v)
           in if lower expect = ''100-continue'' \<and> str_le ''HTTP/1.1'' protocol_version
                 \<and> str_le ''HTTP/1.1'' (request_version h2)
              then and_then (handle_expect_100 h2) (\<lambda>ok h3. Ok ok h3)
              else Ok True h2))"

definition parse_request :: "env \<Rightarrow> request \<Rightarrow> handler \<Rightarrow> bool outcome" where
  "parse_request env req h =
     (let rl = rstrip_crlf (raw_requestline req);
          h0 = h\<lparr>command := None, request_version := default_request_version,
                 close_connection := True, requestline := rl\<rparr>;
          words = split_ws rl
      in if length words = 0 then Ok False h0
         else
           and_then (parse_version env words h0) (\<lambda>ok h1.
             if \<not> ok then Ok False h1
             else
               and_then (parse_command env words h1) (\<lambda>ok h2.
                 if \<not> ok then Ok False h2
                 else parse_headers env (header_lines req) h2)))"

text \<open>
  \<^verbatim>\<open>
  def handle_one_request(self):
      try:
          self.raw_requestline = self.rfile.readline(65537)
          if len(self.raw_requestline) > 65536:
              self.requestline = ''
              self.request_version = ''
              self.command = ''
              self.send_error(HTTPStatus.REQUEST_URI_TOO_LONG)
              return
          if not self.raw_requestline:
              self.close_connection = True
              return
          if not self.parse_request():
              # An error code has been sent, just exit
              return
          mname = 'do_' + self.command
          if not hasattr(self, mname):
              self.send_error(
                  HTTPStatus.NOT_IMPLEMENTED,
                  "Unsupported method (%r)" % self.command)
              return
          method = getattr(self, mname)
          method()
          self.wfile.flush() #actually send the response if not already done.
      except TimeoutError as e:
          ...
  \<close>
  The attributes of a \<open>Handler\<close> whose names start with \<open>do_\<close> are
  \<open>do_GET\<close> and \<open>do_HEAD\<close>. No timeout is set on the socket.
\<close>

definition handle_one_request :: "env \<Rightarrow> request \<Rightarrow> handler \<Rightarrow> unit outcome" where
  "handle_one_request env req h =
     (if length (raw_requestline req) > 65536 then
        send_error env 414 None None
          (h\<lparr>requestline := '''', request_version := '''', command := Some ''''\<rparr>)
      else if raw_requestline req = [] then Ok () (h\<lparr>close_connection := True\<rparr>)
      else
        and_then (parse_request env req h) (\<lambda>ok h1.
          if \<not> ok then Ok () h1
          else
            (let cmd = (case command h1 of None \<Rightarrow> '''' | Some c \<Rightarrow> c) in
             if cmd = ''GET'' then do_GET env h1
             else if cmd = ''HEAD'' then do_HEAD env h1
             else send_error env 501
                    (Some (''Unsupported method ('' @ repr env cmd @ '')'')) None h1)))"

text \<open>
  A handler is created for each connection; \<open>handle\<close> sets
  \<open>close_connection\<close> and reads the first request. With
  \<open>protocol_version = "HTTP/1.0"\<close> the connection is closed after it.
\<close>

definition new_handler :: handler where
  "new_handler =
     \<lparr>requestline = '''', request_version = '''', command = None, path = '''',
      headers = \<lparr>Connection = None, Expect = None, If_Modified_Since = None,
                 If_None_Match = None\<rparr>,
      close_connection = True, headers_buffer = None, wfile = []\<rparr>"

definition serve :: "env \<Rightarrow> request \<Rightarrow> unit outcome" where
  "serve env req = handle_one_request env req new_handler"

text \<open>The bytes sent to the client.\<close>

definition response_bytes :: "handler \<Rightarrow> bytes" where
  "response_bytes h = concat (map written_bytes (wfile h))"

subsection \<open>Reading a response\<close>

text \<open>
  The buffered header lines, and the two properties of a response that the claims are
  about: every header block written holds the CORS line exactly once, and a response to
  a request whose version is not \<open>HTTP/0.9\<close> starts with a header block.
\<close>

definition buf_of :: "handler \<Rightarrow> bytes list" where
  "buf_of h = (case headers_buffer h of None \<Rightarrow> [] | Some buf \<Rightarrow> buf)"

definition cors_once :: "handler \<Rightarrow> bool" where
  "cors_once h \<longleftrightarrow> list_all (\<lambda>ls. count_list ls cors_line = 1) (header_blocks (wfile h))"

fun starts_with_block :: "written list \<Rightarrow> bool" where
  "starts_with_block (WriteJoined ls # ws) = True"
| "starts_with_block _ = False"

definition good :: "handler \<Rightarrow> bool" where
  "good h \<longleftrightarrow>
     cors_once h \<and> count_list (buf_of h) cors_line = 0 \<and>
     (if request_version h = ''HTTP/0.9'' then header_blocks (wfile h) = []
      else wfile h = [] \<or> starts_with_block (wfile h))"

text \<open>A step that only buffers header lines other than the CORS line.\<close>

definition buffers :: "handler \<Rightarrow> handler \<Rightarrow> bool" where
  "buffers h h' \<longleftrightarrow>
     request_version h' = request_version h \<and> command h' = command h \<and>
     headers h' = headers h \<and> path h' = path h \<and> wfile h' = wfile h \<and>
     count_list (buf_of h') cors_line = count_list (buf_of h) cors_line"

definition responded :: "handler \<Rightarrow> handler \<Rightarrow> bool" where
  "responded h h' \<longleftrightarrow>
     good h' \<and> request_version h' = request_version h \<and>
     (request_version h = ''HTTP/0.9'' \<or> wfile h' \<noteq> [])"

text \<open>Nothing has been written or buffered yet.\<close>

definition idle :: "handler \<Rightarrow> bool" where
  "idle h \<longleftrightarrow> wfile h = [] \<and> headers_buffer h = None"

text \<open>
  A method called in the state \<open>h\<close> has answered when it has returned with a
  response sent; an exception leaves it in the state \<open>h\<close> itself.
\<close>

definition answers :: "handler \<Rightarrow> 'a outcome \<Rightarrow> bool" where
  "answers h m = (case m of Ok v h' \<Rightarrow> responded h h' | Exc e h' \<Rightarrow> h' = h)"

text \<open>
  The steps of \<open>parse_request\<close> do not raise. A step that goes on has sent nothing;
  a step that does not has sent an error response.
\<close>

definition parsed :: "bool outcome \<Rightarrow> bool" where
  "parsed m = (case m of Ok ok h' \<Rightarrow> good h' \<and> (\<not> ok \<or> idle h') | Exc e h' \<Rightarrow> False)"

subsection \<open>A site and some requests\<close>

text \<open>
  The end-to-end scenario of the specification: the server runs in a directory
  \<open>/srv\<close> that holds one file, \<open>index.html\<close>, with the content
  \<open><h1>hi</h1>\<close>. The library functions that are parameters are given simple
  values; \<open>translate_path\<close> puts the directory before the path of the request,
  and \<open>open\<close> refuses a path with a null character.
\<close>

definition index_html :: fileobj where
  "index_html = \<lparr>content = ''<h1>hi</h1>'', st_mtime = 1000, readable = True\<rparr>"

definition site :: env where
  "site =
     \<lparr>stat = [''/srv/'' \<mapsto> Directory (Some [''index.html'']),
              ''/srv/index.html'' \<mapsto> File index_html],
      translate_path = (\<lambda>p. ''/srv'' @ p),
      guess_type = (\<lambda>p. ''text/html''),
      urlsplit_path = (\<lambda>p. Inr p),
      redirect_url = (\<lambda>p. p @ ''/''),
      version_string = ''SimpleHTTP/0.6 Python/3.11.10'',
      date_time_string =
        (\<lambda>t. case t of
               None \<Rightarrow> ''Tue, 03 Nov 2026 16:43:04 GMT''
             | Some _ \<Rightarrow> ''Thu, 01 Jan 1970 00:16:40 GMT''),
      parsedate =
        (\<lambda>v. if v = ''Fri, 01 Jan 2100 00:00:00 GMT'' then Utc 4102444800 else IllFormed),
      error_page = (\<lambda>code message explain. ''<p>'' @ message @ ''</p>''),
      listing_page = (\<lambda>p url names. Inr (concat names)),
      open_refuses = (\<lambda>p. if CHR 0x00 \<in> set p then Some ValueError else None),
      filesystemencoding = ''utf-8'',
      repr = (\<lambda>s. [CHR 0x27] @ s @ [CHR 0x27])\<rparr>"

definition no_headers :: req_headers where
  "no_headers =
     \<lparr>Connection = None, Expect = None, If_Modified_Since = None, If_None_Match = None\<rparr>"

definition simple_request :: request where
  "simple_request =
     \<lparr>raw_requestline = ''GET /index.html'' @ CRLF, header_lines = Headers no_headers\<rparr>"

definition get_index :: request where
  "get_index =
     \<lparr>raw_requestline = ''GET /index.html HTTP/1.1'' @ CRLF,
      header_lines = Headers no_headers\<rparr>"

definition conditional_get :: request where
  "conditional_get =
     \<lparr>raw_requestline = ''GET /index.html HTTP/1.1'' @ CRLF,
      header_lines =
        Headers (no_headers\<lparr>If_Modified_Since := Some ''Fri, 01 Jan 2100 00:00:00 GMT''\<rparr>)\<rparr>"

definition get_missing :: request where
  "get_missing =
     \<lparr>raw_requestline = ''GET /nope HTTP/1.1'' @ CRLF, header_lines = Headers no_headers\<rparr>"

definition post_missing :: request where
  "post_missing =
     \<lparr>raw_requestline = ''POST /nope HTTP/1.1'' @ CRLF, header_lines = Headers no_headers\<rparr>"

definition get_null_path :: request where
  "get_null_path =
     \<lparr>raw_requestline = ''GET /a'' @ [CHR 0x00] @ ''b HTTP/1.1'' @ CRLF,
      header_lines = Headers no_headers\<rparr>"

section \<open>Properties of the script\<close>

subsection \<open>The paths through \<open>main\<close>\<close>

lemma str_PORT: "str_int 8000 = ''8000''"
  by (simp add: str_int_def str_nat.simps[of 8000] str_nat.simps[of 800]
      str_nat.simps[of 80] str_nat.simps[of 8])

lemma seq_extern:
  "seq (extern c) f w tr =
     (case w c of Raises e \<Rightarrow> (tr @ [c], Raises e) | Returns v \<Rightarrow> f v w (tr @ [c]))"
  by (simp add: seq_def extern_def split: result.splits)

lemma main_calls:
  "main =
     seq (extern bind_call) (\<lambda>httpd.
     seq (extern announce_call) (\<lambda>_.
     seq (extern hint_call) (\<lambda>_.
     seq (extern browser_call) (\<lambda>_.
     try_except
       (seq (extern Serve_forever) (\<lambda>_. ret ()))
       KeyboardInterrupt
       (seq (extern stopped_call) (\<lambda>_.
        seq (extern Server_close) (\<lambda>_. ret ())))))))"
  by (simp add: main_def server_address_def str_PORT PORT_def bind_call_def announce_call_def
      hint_call_def browser_call_def stopped_call_def)

lemma call_distinct [simp]:
  "bind_call \<noteq> Serve_forever" "announce_call \<noteq> Serve_forever" "hint_call \<noteq> Serve_forever"
  "browser_call \<noteq> Serve_forever" "stopped_call \<noteq> Serve_forever"
  "bind_call \<noteq> Server_close" "announce_call \<noteq> Server_close" "hint_call \<noteq> Server_close"
  "browser_call \<noteq> Server_close" "stopped_call \<noteq> Server_close"
  "bind_call \<noteq> stopped_call" "announce_call \<noteq> stopped_call" "hint_call \<noteq> stopped_call"
  "browser_call \<noteq> stopped_call"
  "bind_call \<noteq> browser_call" "announce_call \<noteq> browser_call" "hint_call \<noteq> browser_call"
  "bind_call \<noteq> hint_call" "announce_call \<noteq> hint_call" "bind_call \<noteq> announce_call"
  by (simp_all add: bind_call_def announce_call_def hint_call_def browser_call_def
      stopped_call_def)

lemmas call_distinct_sym [simp] = call_distinct [symmetric]

lemma returnedE: "returned r \<Longrightarrow> (\<And>v. r = Returns v \<Longrightarrow> P) \<Longrightarrow> P"
  by (cases r) simp_all

lemma main_bind_raises:
  "w bind_call = Raises e \<Longrightarrow> main w [] = ([bind_call], Raises e)"
  by (simp add: main_calls seq_extern)

lemma main_announce_raises:
  "returned (w bind_call) \<Longrightarrow> w announce_call = Raises e \<Longrightarrow>
   main w [] = ([bind_call, announce_call], Raises e)"
  by (auto elim!: returnedE simp: main_calls seq_extern)

lemma main_hint_raises:
  "returned (w bind_call) \<Longrightarrow> returned (w announce_call) \<Longrightarrow> w hint_call = Raises e \<Longrightarrow>
   main w [] = ([bind_call, announce_call, hint_call], Raises e)"
  by (auto elim!: returnedE simp: main_calls seq_extern)

lemma main_browser_raises:
  "returned (w bind_call) \<Longrightarrow> returned (w announce_call) \<Longrightarrow> returned (w hint_call) \<Longrightarrow>
   w browser_call = Raises e \<Longrightarrow>
   main w [] = ([bind_call, announce_call, hint_call, browser_call], Raises e)"
  by (auto elim!: returnedE simp: main_calls seq_extern)

lemma main_serving:
  "returned (w bind_call) \<Longrightarrow> returned (w announce_call) \<Longrightarrow> returned (w hint_call) \<Longrightarrow>
   returned (w browser_call) \<Longrightarrow>
   main w [] =
     try_except
       (seq (extern Serve_forever) (\<lambda>_. ret ()))
       KeyboardInterrupt
       (seq (extern stopped_call) (\<lambda>_.
        seq (extern Server_close) (\<lambda>_. ret ())))
       w [bind_call, announce_call, hint_call, browser_call]"
  by (auto elim!: returnedE simp: main_calls seq_extern)

lemma serving_returns:
  "w Serve_forever = Returns v \<Longrightarrow>
   try_except (seq (extern Serve_forever) (\<lambda>_. ret ())) KeyboardInterrupt h w tr
     = (tr @ [Serve_forever], Returns ())"
  by (simp add: try_except_def seq_extern ret_def)

lemma serving_other:
  "w Serve_forever = Raises e \<Longrightarrow> e \<noteq> KeyboardInterrupt \<Longrightarrow>
   try_except (seq (extern Serve_forever) (\<lambda>_. ret ())) KeyboardInterrupt h w tr
     = (tr @ [Serve_forever], Raises e)"
  by (simp add: try_except_def seq_extern ret_def)

lemma serving_interrupt:
  "w Serve_forever = Raises KeyboardInterrupt \<Longrightarrow>
   try_except (seq (extern Serve_forever) (\<lambda>_. ret ())) KeyboardInterrupt h w tr
     = h w (tr @ [Serve_forever])"
  by (simp add: try_except_def seq_extern ret_def)

lemma main_serve_returns:
  assumes "returned (w bind_call)" "returned (w announce_call)" "returned (w hint_call)"
    "returned (w browser_call)" "w Serve_forever = Returns v"
  shows "main w [] =
    ([bind_call, announce_call, hint_call, browser_call, Serve_forever], Returns ())"
  using assms by (simp add: main_serving serving_returns)

lemma main_serve_other:
  assumes "returned (w bind_call)" "returned (w announce_call)" "returned (w hint_call)"
    "returned (w browser_call)" "w Serve_forever = Raises e" "e \<noteq> KeyboardInterrupt"
  shows "main w [] =
    ([bind_call, announce_call, hint_call, browser_call, Serve_forever], Raises e)"
  using assms by (simp add: main_serving serving_other)

lemma main_interrupt_print_raises:
  assumes "returned (w bind_call)" "returned (w announce_call)" "returned (w hint_call)"
    "returned (w browser_call)" "w Serve_forever = Raises KeyboardInterrupt"
    "w stopped_call = Raises e"
  shows "main w [] =
    ([bind_call, announce_call, hint_call, browser_call, Serve_forever, stopped_call],
     Raises e)"
  using assms by (simp add: main_serving serving_interrupt seq_extern)

lemma main_interrupt_close:
  assumes "returned (w bind_call)" "returned (w announce_call)" "returned (w hint_call)"
    "returned (w browser_call)" "w Serve_forever = Raises KeyboardInterrupt"
    "returned (w stopped_call)"
  shows "main w [] =
    (full_trace, case w Server_close of Returns _ \<Rightarrow> Returns () | Raises e \<Rightarrow> Raises e)"
  using assms
  by (auto elim!: returnedE simp: main_serving serving_interrupt seq_extern ret_def
      full_trace_def split: result.splits)

text \<open>
  Whatever the world does, the calls of a run are a non-empty initial segment of one fixed
  sequence: the script has no loop and no branch other than the exception paths.
\<close>

lemma main_prefix: "\<exists>n r. 1 \<le> n \<and> main w [] = (take n full_trace, r)"
proof (cases "w bind_call")
  case (Raises e)
  then have "main w [] = (take 1 full_trace, Raises e)"
    by (simp add: main_bind_raises full_trace_def)
  then show ?thesis by (metis le_refl)
next
  case (Returns v0)
  then have b: "returned (w bind_call)" by simp
  show ?thesis
  proof (cases "w announce_call")
    case (Raises e)
    with b have "main w [] = (take 2 full_trace, Raises e)"
      by (simp add: main_announce_raises full_trace_def)
    then show ?thesis by (metis one_le_numeral)
  next
    case (Returns v1)
    then have a: "returned (w announce_call)" by simp
    show ?thesis
    proof (cases "w hint_call")
      case (Raises e)
      with a b have "main w [] = (take 3 full_trace, Raises e)"
        by (simp add: main_hint_raises full_trace_def)
      then show ?thesis by (metis one_le_numeral)
    next
      case (Returns v2)
      then have h: "returned (w hint_call)" by simp
      show ?thesis
      proof (cases "w browser_call")
        case (Raises e)
        with a b h have "main w [] = (take 4 full_trace, Raises e)"
          by (simp add: main_browser_raises full_trace_def)
        then show ?thesis by (metis one_le_numeral)
      next
        case (Returns v3)
        then have o: "returned (w browser_call)" by simp
        show ?thesis
        proof (cases "w Serve_forever")
          case (Returns v4)
          with a b h o have "main w [] = (take 5 full_trace, Returns ())"
            by (simp add: main_serve_returns full_trace_def)
          then show ?thesis by (metis one_le_numeral)
        next
          case s: (Raises e)
          show ?thesis
          proof (cases "e = KeyboardInterrupt")
            case False
            with a b h o s have "main w [] = (take 5 full_trace, Raises e)"
              by (simp add: main_serve_other full_trace_def)
            then show ?thesis by (metis one_le_numeral)
          next
            case True
            show ?thesis
            proof (cases "w stopped_call")
              case (Raises e')
              with a b h o s True have "main w [] = (take 6 full_trace, Raises e')"
                by (simp add: main_interrupt_print_raises full_trace_def)
              then show ?thesis by (metis one_le_numeral)
            next
              case (Returns v5)
              with a b h o s True have "\<exists>r. main w [] = (take 7 full_trace, r)"
                by (simp add: main_interrupt_close full_trace_def)
              then show ?thesis by (metis one_le_numeral)
            qed
          qed
        qed
      qed
    qed
  qed
qed

lemma take_full_trace_init:
  "1 \<le> n \<Longrightarrow> filter is_HTTPServer_init (take n full_trace) = [bind_call]
     \<and> hd (take n full_trace) = bind_call \<and> take n full_trace \<noteq> []"
  by (cases n) (auto simp: full_trace_def bind_call_def announce_call_def hint_call_def
      browser_call_def stopped_call_def take_Cons split: nat.splits)

lemma world_simps [simp]:
  "quiet_world c = Returns PyNone"
  "interrupted_world Serve_forever = Raises KeyboardInterrupt"
  "c \<noteq> Serve_forever \<Longrightarrow> interrupted_world c = Returns PyNone"
  "port_in_use_world (HTTPServer_init a) = Raises OSError"
  "no_browser_world Serve_forever = Raises KeyboardInterrupt"
  "no_browser_world browser_call = Returns (PyBool False)"
  "c \<noteq> Serve_forever \<Longrightarrow> c \<noteq> browser_call \<Longrightarrow> no_browser_world c = Returns PyNone"
  "serve_error_world Serve_forever = Raises OSError"
  "c \<noteq> Serve_forever \<Longrightarrow> serve_error_world c = Returns PyNone"
  "early_interrupt_world browser_call = Raises KeyboardInterrupt"
  "c \<noteq> browser_call \<Longrightarrow> early_interrupt_world c = Returns PyNone"
  by (simp_all add: quiet_world_def interrupted_world_def port_in_use_world_def
      no_browser_world_def serve_error_world_def early_interrupt_world_def)

lemma more_world_simps [simp]:
  "broken_stdout_world Serve_forever = Raises KeyboardInterrupt"
  "broken_stdout_world stopped_call = Raises OSError"
  "c \<noteq> Serve_forever \<Longrightarrow> c \<noteq> stopped_call \<Longrightarrow> broken_stdout_world c = Returns PyNone"
  "browser_raises_world browser_call = Raises OSError"
  "c \<noteq> browser_call \<Longrightarrow> browser_raises_world c = Returns PyNone"
  by (simp_all add: broken_stdout_world_def browser_raises_world_def)

subsection \<open>Claims about the script\<close>

text \<open>
  C4. On every invocation, whatever the command line and the environment hold and
  whatever the world does afterwards, the first call of the run constructs the server on
  the address \<open>('', 8000)\<close> (the empty host, all interfaces; port 8000), and that
  is the only server the run ever constructs.
\<close>

theorem port_is_fixed:
  "calls (run_script argv environ w) \<noteq> []
   \<and> hd (calls (run_script argv environ w)) = HTTPServer_init ('''', 8000)
   \<and> filter is_HTTPServer_init (calls (run_script argv environ w))
       = [HTTPServer_init ('''', 8000)]"
proof -
  obtain n r where n: "1 \<le> n" and m: "main w [] = (take n full_trace, r)"
    using main_prefix by blast
  have c: "calls (run_script argv environ w) = take n full_trace"
    using m by (simp add: run_script_def split: result.splits)
  show ?thesis
    using take_full_trace_init [OF n] by (simp add: c bind_call_def)
qed




text \<open>
  C6. If constructing the server raises (the port is in use: \<open>OSError\<close>), the
  run consists of that one call: nothing is printed by the script, no second bind is
  tried on this or another port; the exception leaves \<open>main\<close>, the interpreter
  reports it as a traceback, and the exit status is not 0.
\<close>

theorem bind_failure_fails_fast:
  assumes "w (HTTPServer_init ('''', 8000)) = Raises e"
  shows "calls (run_script argv environ w) = [HTTPServer_init ('''', 8000)]
         \<and> traceback (run_script argv environ w) = Some e
         \<and> exit_status (run_script argv environ w) \<noteq> 0"
  using assms by (simp add: run_script_def main_bind_raises bind_call_def)

theorem bind_failure_fails_fast_witness:
  "calls (run_script [] Map.empty port_in_use_world) = [HTTPServer_init ('''', 8000)]
   \<and> traceback (run_script [] Map.empty port_in_use_world) = Some OSError
   \<and> exit_status (run_script [] Map.empty port_in_use_world) \<noteq> 0"
  using bind_failure_fails_fast [of port_in_use_world OSError "[]" Map.empty]
  by simp

text \<open>
  What follows a browser call that returns, whatever it returns.
\<close>

lemma serving_after_browser_returns:
  assumes "returned (w bind_call)" "returned (w announce_call)" "returned (w hint_call)"
    and "returned (w (Webbrowser_open ''http://localhost:8000''))"
  shows "take 5 (calls (run_script argv environ w)) =
           [bind_call, announce_call, hint_call, Webbrowser_open ''http://localhost:8000'',
            Serve_forever]
         \<and> Serve_forever \<in> set (calls (run_script argv environ w))"
proof -
  have o: "returned (w browser_call)"
    using assms(4) by (simp add: browser_call_def)
  obtain n r where n: "1 \<le> n" and m: "main w [] = (take n full_trace, r)"
    using main_prefix by blast
  have "5 \<le> n"
  proof (rule ccontr)
    assume "\<not> 5 \<le> n"
    then have "n = 1 \<or> n = 2 \<or> n = 3 \<or> n = 4" using n by arith
    then have "length (fst (main w [])) < 5"
      using m by (auto simp: full_trace_def)
    moreover have "5 \<le> length (fst (main w []))"
    proof (cases "w Serve_forever")
      case (Returns v)
      then show ?thesis using assms(1-3) o by (simp add: main_serve_returns)
    next
      case s: (Raises e)
      show ?thesis
      proof (cases "e = KeyboardInterrupt")
        case False
        then show ?thesis using assms(1-3) o s by (simp add: main_serve_other)
      next
        case True
        show ?thesis
        proof (cases "w stopped_call")
          case (Raises e')
          then show ?thesis
            using assms(1-3) o s True by (simp add: main_interrupt_print_raises)
        next
          case (Returns v)
          then show ?thesis
            using assms(1-3) o s True by (simp add: main_interrupt_close full_trace_def)
        qed
      qed
    qed
    ultimately show False by simp
  qed
  then have t: "take 5 (take n full_trace) = take 5 full_trace"
    by (simp add: min_def)
  have c: "calls (run_script argv environ w) = take n full_trace"
    using m by (simp add: run_script_def split: result.splits)
  have "take 5 (calls (run_script argv environ w)) = take 5 full_trace"
    using t c by simp
  then have five: "take 5 (calls (run_script argv environ w)) =
      [bind_call, announce_call, hint_call, browser_call, Serve_forever]"
    by (simp add: full_trace_def)
  have "Serve_forever \<in> set (take 5 (calls (run_script argv environ w)))"
    unfolding five by simp
  then have "Serve_forever \<in> set (calls (run_script argv environ w))"
    by (rule in_set_takeD)
  with five show ?thesis by (simp add: browser_call_def)
qed




text \<open>
  C8. On a start-up in which the constructor, both prints and the browser call return,
  the first five calls of the run are, in this order: the bind, the line announcing
  \<open>http://localhost:8000\<close>, the line on how to stop, the browser-open attempt at
  that URL, and only then \<open>serve_forever\<close>.
\<close>

theorem startup_order:
  assumes "returned (w bind_call)" "returned (w announce_call)" "returned (w hint_call)"
    and "returned (w browser_call)"
  shows "take 5 (calls (run_script argv environ w)) =
           [HTTPServer_init ('''', 8000),
            Print ''Starting server at http://localhost:8000'',
            Print ''Press Ctrl+C to stop the server'',
            Webbrowser_open ''http://localhost:8000'',
            Serve_forever]"
proof -
  have "take 5 (fst (main w [])) =
      [bind_call, announce_call, hint_call, browser_call, Serve_forever]"
  proof (cases "w Serve_forever")
    case (Returns v)
    then show ?thesis using assms by (simp add: main_serve_returns)
  next
    case s: (Raises e)
    show ?thesis
    proof (cases "e = KeyboardInterrupt")
      case False
      then show ?thesis using assms s by (simp add: main_serve_other)
    next
      case True
      show ?thesis
      proof (cases "w stopped_call")
        case (Raises e')
        then show ?thesis
          using assms s True by (simp add: main_interrupt_print_raises)
      next
        case (Returns v)
        then show ?thesis
          using assms s True by (simp add: main_interrupt_close full_trace_def)
      qed
    qed
  qed
  moreover have "calls (run_script argv environ w) = fst (main w [])"
    by (simp add: run_script_def split: prod.splits result.splits)
  ultimately show ?thesis
    by (simp add: bind_call_def announce_call_def hint_call_def browser_call_def)
qed

theorem startup_order_witness:
  "take 5 (calls (run_script [] Map.empty quiet_world)) =
     [HTTPServer_init ('''', 8000),
      Print ''Starting server at http://localhost:8000'',
      Print ''Press Ctrl+C to stop the server'',
      Webbrowser_open ''http://localhost:8000'',
      Serve_forever]"
  using startup_order [of quiet_world "[]" Map.empty]
  by simp

text \<open>
  C9, as stated: on every exit path out of the serving loop, \<open>server_close\<close>
  runs. The script has no \<open>finally\<close> and no \<open>with\<close>: only
  \<open>KeyboardInterrupt\<close> is caught. In a world where \<open>serve_forever\<close>
  raises \<open>OSError\<close>, the exception leaves \<open>main\<close>; the run ends with
  the call of \<open>serve_forever\<close> and \<open>server_close\<close> is never called.
\<close>

theorem server_close_on_every_exit_counterexample:
  "serve_error_world Serve_forever = Raises OSError
   \<and> calls (run_script [] Map.empty serve_error_world) =
       [bind_call, announce_call, hint_call, browser_call, Serve_forever]
   \<and> Server_close \<notin> set (calls (run_script [] Map.empty serve_error_world))
   \<and> traceback (run_script [] Map.empty serve_error_world) = Some OSError
   \<and> exit_status (run_script [] Map.empty serve_error_world) = 1"
proof -
  have "main serve_error_world [] =
      ([bind_call, announce_call, hint_call, browser_call, Serve_forever], Raises OSError)"
    by (rule main_serve_other) simp_all
  then show ?thesis
    by (simp add: run_script_def)
qed

text \<open>
  C9, amended: after a start-up that went through, when \<open>serve_forever\<close> is left
  by an exception, \<open>server_close\<close> is called exactly when that exception is
  \<open>KeyboardInterrupt\<close> and the shutdown print before it returns; it is then the
  last call of the run. On any other exception out of \<open>serve_forever\<close> the
  exception is reported by the interpreter and \<open>server_close\<close> is not called.
\<close>

theorem server_close_only_on_interrupt:
  assumes "returned (w bind_call)" "returned (w announce_call)" "returned (w hint_call)"
    and "returned (w browser_call)"
    and "w Serve_forever = Raises e"
  shows "(Server_close \<in> set (calls (run_script argv environ w))
            \<longleftrightarrow> e = KeyboardInterrupt \<and> returned (w stopped_call))
         \<and> (e = KeyboardInterrupt \<and> returned (w stopped_call)
              \<longrightarrow> last (calls (run_script argv environ w)) = Server_close)
         \<and> (e \<noteq> KeyboardInterrupt
              \<longrightarrow> traceback (run_script argv environ w) = Some e)"
proof (cases "e = KeyboardInterrupt")
  case False
  then have "main w [] =
      ([bind_call, announce_call, hint_call, browser_call, Serve_forever], Raises e)"
    using assms by (simp add: main_serve_other)
  then show ?thesis using False by (simp add: run_script_def)
next
  case True
  show ?thesis
  proof (cases "w stopped_call")
    case (Raises e')
    then have "main w [] =
        ([bind_call, announce_call, hint_call, browser_call, Serve_forever, stopped_call],
         Raises e')"
      using assms True by (simp add: main_interrupt_print_raises)
    then show ?thesis using True Raises by (simp add: run_script_def)
  next
    case (Returns v)
    then have "fst (main w []) = full_trace"
      using assms True by (simp add: main_interrupt_close)
    moreover have "calls (run_script argv environ w) = fst (main w [])"
      by (simp add: run_script_def split: prod.splits result.splits)
    ultimately show ?thesis using True Returns by (simp add: full_trace_def)
  qed
qed

theorem server_close_only_on_interrupt_witness:
  "Server_close \<in> set (calls (run_script [] Map.empty interrupted_world))
   \<and> last (calls (run_script [] Map.empty interrupted_world)) = Server_close
   \<and> Server_close \<notin> set (calls (run_script [] Map.empty serve_error_world))
   \<and> traceback (run_script [] Map.empty serve_error_world) = Some OSError"
  using server_close_only_on_interrupt [of interrupted_world KeyboardInterrupt "[]" Map.empty]
    server_close_only_on_interrupt [of serve_error_world OSError "[]" Map.empty]
  by simp

text \<open>
  C10. If the constructor has returned and \<open>KeyboardInterrupt\<close> is raised by one
  of the three start-up calls that follow (the two prints, the browser-open attempt),
  nothing catches it: the run ends there, before \<open>serve_forever\<close>; the shutdown
  notice is not printed, \<open>server_close\<close> is not called, the interpreter reports
  the exception and the exit status is not 0.
\<close>

theorem startup_interrupt_is_uncaught:
  assumes "returned (w bind_call)"
    and "w announce_call = Raises KeyboardInterrupt
         \<or> returned (w announce_call) \<and> w hint_call = Raises KeyboardInterrupt
         \<or> returned (w announce_call) \<and> returned (w hint_call)
            \<and> w browser_call = Raises KeyboardInterrupt"
  shows "Print (CHR 0x0A # ''Server stopped'') \<notin> set (calls (run_script argv environ w))
         \<and> Server_close \<notin> set (calls (run_script argv environ w))
         \<and> Serve_forever \<notin> set (calls (run_script argv environ w))
         \<and> traceback (run_script argv environ w) = Some KeyboardInterrupt
         \<and> exit_status (run_script argv environ w) \<noteq> 0"
proof -
  have n: "Print (CHR 0x0A # ''Server stopped'') = stopped_call"
    by (simp add: stopped_call_def)
  from assms(2) consider
      (announce) "w announce_call = Raises KeyboardInterrupt"
    | (hint) "returned (w announce_call)" "w hint_call = Raises KeyboardInterrupt"
    | (browser) "returned (w announce_call)" "returned (w hint_call)"
        "w browser_call = Raises KeyboardInterrupt"
    by blast
  then show ?thesis
  proof cases
    case announce
    then have "main w [] = ([bind_call, announce_call], Raises KeyboardInterrupt)"
      using assms(1) by (simp add: main_announce_raises)
    then show ?thesis
      unfolding n by (simp add: run_script_def)
  next
    case hint
    then have "main w [] = ([bind_call, announce_call, hint_call], Raises KeyboardInterrupt)"
      using assms(1) by (simp add: main_hint_raises)
    then show ?thesis
      unfolding n by (simp add: run_script_def)
  next
    case browser
    then have "main w [] =
        ([bind_call, announce_call, hint_call, browser_call], Raises KeyboardInterrupt)"
      using assms(1) by (simp add: main_browser_raises)
    then show ?thesis
      unfolding n by (simp add: run_script_def)
  qed
qed

theorem startup_interrupt_is_uncaught_witness:
  "Print (CHR 0x0A # ''Server stopped'')
     \<notin> set (calls (run_script [] Map.empty early_interrupt_world))
   \<and> Server_close \<notin> set (calls (run_script [] Map.empty early_interrupt_world))
   \<and> Serve_forever \<notin> set (calls (run_script [] Map.empty early_interrupt_world))
   \<and> traceback (run_script [] Map.empty early_interrupt_world) = Some KeyboardInterrupt
   \<and> exit_status (run_script [] Map.empty early_interrupt_world) \<noteq> 0"
  using startup_interrupt_is_uncaught [of early_interrupt_world "[]" Map.empty]
  by simp

section \<open>Properties of the handler\<close>

subsection \<open>Header lines and header blocks\<close>

lemma lower_length [simp]: "length (lower s) = length s"
  by (simp add: lower_def)

lemma lower_Connection: "lower ''Connection'' = ''connection''"
  by (simp add: lower_def lower_char_def)

lemma lower_close: "lower ''close'' = ''close''"
  by (simp add: lower_def lower_char_def)

lemma not_http11 [simp]: "\<not> str_le ''HTTP/1.1'' protocol_version"
  by (simp add: protocol_version_def)

lemma buffer_append_simps [simp]:
  "buf_of (buffer_append line h) = buf_of h @ [line]"
  "wfile (buffer_append line h) = wfile h"
  "request_version (buffer_append line h) = request_version h"
  "command (buffer_append line h) = command h"
  "headers (buffer_append line h) = headers h"
  "path (buffer_append line h) = path h"
  by (simp_all add: buffer_append_def buf_of_def)

lemma send_header_plain:
  assumes "length keyword \<noteq> 10"
  shows "send_header keyword val h =
     (if request_version h \<noteq> ''HTTP/0.9'' then buffer_append (header_line keyword val) h else h)"
proof -
  have "length ''connection'' = 10" by simp
  with assms have "lower keyword \<noteq> ''connection''"
    using lower_length by metis
  then show ?thesis by (simp add: send_header_def Let_def)
qed

lemma send_header_close:
  "send_header ''Connection'' ''close'' h =
     (if request_version h \<noteq> ''HTTP/0.9''
      then buffer_append (header_line ''Connection'' ''close'') h else h)\<lparr>close_connection := True\<rparr>"
  by (simp add: send_header_def Let_def lower_Connection lower_close)

lemma buffers_refl [simp]: "buffers h h"
  by (simp add: buffers_def)

lemma buffers_trans: "buffers h h' \<Longrightarrow> buffers h' h'' \<Longrightarrow> buffers h h''"
  by (simp add: buffers_def)

lemma buffers_close [simp]: "buffers h (h'\<lparr>close_connection := b\<rparr>) = buffers h h'"
  by (simp add: buffers_def buf_of_def)

lemma buffers_append: "line \<noteq> cors_line \<Longrightarrow> buffers h (buffer_append line h)"
  by (simp add: buffers_def)

lemma header_line_not_cors:
  "keyword \<noteq> [] \<Longrightarrow> hd keyword \<noteq> CHR ''A'' \<Longrightarrow> header_line keyword val \<noteq> cors_line"
  by (cases keyword) (auto simp: header_line_def cors_line_def)

lemma status_line_not_cors: "status_line code message \<noteq> cors_line"
  by (simp add: status_line_def cors_line_def header_line_def protocol_version_def)

lemma CRLF_not_cors: "CRLF \<noteq> cors_line"
  by (simp add: CRLF_def cors_line_def header_line_def)

lemma buffers_send_response_only: "buffers h (send_response_only code message h)"
  by (simp add: send_response_only_def buffers_append status_line_not_cors)

lemma buffers_send_header:
  assumes "keyword \<noteq> []" "hd keyword \<noteq> CHR ''A''" "length keyword \<noteq> 10"
  shows "buffers h (send_header keyword val h)"
  using assms by (simp add: send_header_plain buffers_append header_line_not_cors)

lemma buffers_send_header_close: "buffers h (send_header ''Connection'' ''close'' h)"
  by (simp add: send_header_close buffers_append header_line_not_cors)

lemma buffers_send_response: "buffers h (send_response env code message h)"
proof -
  let ?h1 = "send_response_only code message h"
  let ?h2 = "send_header ''Server'' (version_string env) ?h1"
  have "buffers h ?h1" by (rule buffers_send_response_only)
  moreover have "buffers ?h1 ?h2" by (rule buffers_send_header) simp_all
  moreover have "buffers ?h2 (send_header ''Date'' (date_time_string env None) ?h2)"
    by (rule buffers_send_header) simp_all
  ultimately show ?thesis
    unfolding send_response_def by (blast intro: buffers_trans)
qed


lemma header_blocks_append [simp]:
  "header_blocks (ws @ ws') = header_blocks ws @ header_blocks ws'"
  by (induction ws rule: header_blocks.induct) simp_all

lemma starts_with_block_append:
  "starts_with_block ws \<Longrightarrow> starts_with_block (ws @ ws')"
  by (cases ws rule: starts_with_block.cases) simp_all

lemma and_then_Ok [simp]: "and_then (Ok v h) f = f v h"
  by (simp add: and_then_def)

lemma and_then_Exc [simp]: "and_then (Exc e h) f = Exc e h"
  by (simp add: and_then_def)

lemma returning_Ok [simp]: "returning u (Ok v h) = Ok u h"
  by (simp add: returning_def)

lemma returning_Exc [simp]: "returning u (Exc e h) = Exc e h"
  by (simp add: returning_def)

lemma end_headers_eq:
  "end_headers h =
     (if request_version h \<noteq> ''HTTP/0.9'' then
        Ok () (h\<lparr>headers_buffer := Some [],
                 wfile := wfile h @ [WriteJoined (buf_of h @ [cors_line, CRLF])]\<rparr>)
      else Ok () h)"
  by (simp add: end_headers_def send_header_plain SimpleHTTPRequestHandler_end_headers_def
      flush_headers_def buffer_append_def buf_of_def cors_line_def)

lemma good_buffers: "good h \<Longrightarrow> buffers h h' \<Longrightarrow> good h'"
  by (simp add: good_def buffers_def cors_once_def)

lemma end_headers_responded:
  assumes "good h"
  shows "\<exists>h'. end_headers h = Ok () h' \<and> responded h h' \<and> command h' = command h"
proof (cases "request_version h = ''HTTP/0.9''")
  case True
  with assms show ?thesis by (simp add: end_headers_eq responded_def)
next
  case False
  let ?h' = "h\<lparr>headers_buffer := Some [],
                wfile := wfile h @ [WriteJoined (buf_of h @ [cors_line, CRLF])]\<rparr>"
  have e: "end_headers h = Ok () ?h'"
    using False by (simp add: end_headers_eq)
  have c: "count_list (buf_of h @ [cors_line, CRLF]) cors_line = 1"
    using assms CRLF_not_cors by (simp add: good_def)
  have s: "starts_with_block (wfile h @ [WriteJoined (buf_of h @ [cors_line, CRLF])])"
  proof (cases "wfile h = []")
    case True
    then show ?thesis by simp
  next
    case nonempty: False
    with assms False have "starts_with_block (wfile h)"
      by (simp add: good_def)
    then show ?thesis by (rule starts_with_block_append)
  qed
  have "good ?h'"
    using assms c s False by (simp add: good_def cors_once_def buf_of_def)
  then show ?thesis
    using e by (simp add: responded_def)
qed

lemma responded_write_body:
  assumes "responded h0 h"
  shows "responded h0 (write_body b h)"
proof -
  from assms have g: "good h" and v: "request_version h = request_version h0"
    and w: "request_version h0 = ''HTTP/0.9'' \<or> wfile h \<noteq> []"
    by (simp_all add: responded_def)
  have "good (write_body b h)"
  proof (cases "request_version h = ''HTTP/0.9''")
    case True
    then show ?thesis
      using g by (simp add: good_def write_body_def cors_once_def buf_of_def)
  next
    case False
    then have "starts_with_block (wfile h)"
      using g v w by (simp add: good_def)
    then have "starts_with_block (wfile h @ [Write b])"
      by (rule starts_with_block_append)
    then show ?thesis
      using g False by (simp add: good_def write_body_def cors_once_def buf_of_def)
  qed
  then show ?thesis
    using v by (simp add: responded_def write_body_def)
qed

lemma responded_copyfile: "responded h0 h \<Longrightarrow> responded h0 (copyfile data h)"
  by (simp add: copyfile_def responded_write_body)

lemma responded_buffers: "buffers h0 h \<Longrightarrow> responded h h' \<Longrightarrow> responded h0 h'"
  by (simp add: responded_def buffers_def)

lemma responded_good: "responded h h' \<Longrightarrow> good h'"
  by (simp add: responded_def)

lemma send_error_responded:
  assumes "good h"
  shows "\<exists>h'. send_error env code message explain h = Ok () h' \<and> responded h h'"
proof -
  obtain shortmsg longmsg where r:
    "(case responses code of Some p \<Rightarrow> p | None \<Rightarrow> (''???'', ''???'')) = (shortmsg, longmsg)"
    by (cases "case responses code of Some p \<Rightarrow> p | None \<Rightarrow> (''???'', ''???'')") simp
  define msg where "msg = (case message of None \<Rightarrow> shortmsg | Some m \<Rightarrow> m)"
  define expl where "expl = (case explain of None \<Rightarrow> longmsg | Some x \<Rightarrow> x)"
  define h1 where "h1 = send_header ''Connection'' ''close'' (send_response env code (Some msg) h)"
  define body where "body = (if code \<ge> 200 \<and> code \<noteq> 204 \<and> code \<noteq> 205 \<and> code \<noteq> 304
                  then Some (error_page env code msg expl) else None)"
  define h2 where "h2 = (case body of
                  None \<Rightarrow> h1
                | Some b \<Rightarrow>
                    send_header ''Content-Length'' (str_nat (length b))
                      (send_header ''Content-Type'' error_content_type h1))"
  have b1: "buffers h h1"
    unfolding h1_def
    by (rule buffers_trans [OF buffers_send_response buffers_send_header_close])
  have b2: "buffers h1 h2"
  proof (cases body)
    case None
    then show ?thesis by (simp add: h2_def)
  next
    case (Some b)
    have "buffers h1 (send_header ''Content-Type'' error_content_type h1)"
      by (rule buffers_send_header) simp_all
    moreover have "buffers (send_header ''Content-Type'' error_content_type h1)
        (send_header ''Content-Length'' (str_nat (length b))
          (send_header ''Content-Type'' error_content_type h1))"
      by (rule buffers_send_header) simp_all
    ultimately show ?thesis
      using Some by (auto simp: h2_def intro: buffers_trans)
  qed
  have b: "buffers h h2" using b1 b2 by (rule buffers_trans)
  then have "good h2" using assms by (rule good_buffers [rotated])
  then obtain h3 where e: "end_headers h2 = Ok () h3" and r3: "responded h2 h3"
    using end_headers_responded by blast
  have s: "send_error env code message explain h =
      Ok () (case body of
               None \<Rightarrow> h3
             | Some b \<Rightarrow> if command h3 \<noteq> Some ''HEAD'' \<and> b \<noteq> [] then write_body b h3 else h3)"
  proof -
    have "send_error env code message explain h =
        and_then (end_headers h2) (\<lambda>_ h3.
          Ok () (case body of
                   None \<Rightarrow> h3
                 | Some b \<Rightarrow>
                     if command h3 \<noteq> Some ''HEAD'' \<and> b \<noteq> [] then write_body b h3 else h3))"
      by (simp only: send_error_def Let_def r prod.case msg_def expl_def h1_def body_def h2_def)
    then show ?thesis by (simp add: e)
  qed
  have "responded h2 (case body of
              None \<Rightarrow> h3
            | Some b \<Rightarrow> if command h3 \<noteq> Some ''HEAD'' \<and> b \<noteq> [] then write_body b h3 else h3)"
    using r3 by (cases body) (simp_all add: responded_write_body)
  then show ?thesis
    using s b responded_buffers by blast
qed

subsection \<open>Every path of the handler answers well, or raises before it sends\<close>

lemma answers_send_error:
  assumes "good h"
  shows "answers h (returning v (send_error env code message explain h))"
proof -
  obtain h' where "send_error env code message explain h = Ok () h'" "responded h h'"
    using send_error_responded [OF assms] by blast
  then show ?thesis by (simp add: answers_def)
qed

lemma answers_end_headers:
  assumes "good h" "buffers h h2"
  shows "answers h (returning v (end_headers h2))"
proof -
  have "good h2" using assms by (rule good_buffers)
  then obtain h' where "end_headers h2 = Ok () h'" "responded h2 h'"
    using end_headers_responded by blast
  then show ?thesis
    using assms(2) by (simp add: answers_def responded_buffers)
qed

lemma list_directory_answers:
  assumes "good h"
  shows "answers h (list_directory env p h)"
proof (cases "listdir env p")
  case None
  then show ?thesis
    using answers_send_error [OF assms] by (simp add: list_directory_def)
next
  case (Some names)
  show ?thesis
  proof (cases "listing_page env p (path h) names")
    case (Inl e)
    with Some show ?thesis by (simp add: list_directory_def answers_def)
  next
    case (Inr encoded)
    define h1 where "h1 = send_response env 200 None h"
    define h2 where "h2 = send_header ''Content-type''
                        (''text/html; charset='' @ filesystemencoding env) h1"
    define h3 where "h3 = send_header ''Content-Length'' (str_nat (length encoded)) h2"
    have "buffers h h1" unfolding h1_def by (rule buffers_send_response)
    moreover have "buffers h1 h2" unfolding h2_def by (rule buffers_send_header) simp_all
    moreover have "buffers h2 h3" unfolding h3_def by (rule buffers_send_header) simp_all
    ultimately have b: "buffers h h3" by (blast intro: buffers_trans)
    have "list_directory env p h = returning (Some encoded) (end_headers h3)"
      using Some Inr by (simp add: list_directory_def Let_def h1_def h2_def h3_def)
    then show ?thesis
      using answers_end_headers [OF assms b] by simp
  qed
qed

lemma send_head_file_answers:
  assumes "good h"
  shows "answers h (send_head_file env p h)"
proof (cases "endswith p ''/''")
  case True
  then show ?thesis
    using answers_send_error [OF assms] by (simp add: send_head_file_def)
next
  case slash: False
  show ?thesis
  proof (cases "open_rb env p")
    case (OpenRaised e)
    with slash show ?thesis by (simp add: send_head_file_def answers_def)
  next
    case OpenOSError
    with slash show ?thesis
      using answers_send_error [OF assms] by (simp add: send_head_file_def)
  next
    case (Opened f)
    show ?thesis
    proof (cases "not_modified env (headers h) f")
      case True
      have "buffers h (send_response env 304 None h)" by (rule buffers_send_response)
      then show ?thesis
        using slash Opened True answers_end_headers [OF assms]
        by (simp add: send_head_file_def)
    next
      case False
      define h1 where "h1 = send_response env 200 None h"
      define h2 where "h2 = send_header ''Content-type'' (guess_type env p) h1"
      define h3 where "h3 = send_header ''Content-Length'' (str_nat (length (content f))) h2"
      define h4 where "h4 = send_header ''Last-Modified''
                         (date_time_string env (Some (st_mtime f))) h3"
      have "buffers h h1" unfolding h1_def by (rule buffers_send_response)
      moreover have "buffers h1 h2" unfolding h2_def by (rule buffers_send_header) simp_all
      moreover have "buffers h2 h3" unfolding h3_def by (rule buffers_send_header) simp_all
      moreover have "buffers h3 h4" unfolding h4_def by (rule buffers_send_header) simp_all
      ultimately have b: "buffers h h4" by (blast intro: buffers_trans)
      have "send_head_file env p h = returning (Some (content f)) (end_headers h4)"
        using slash Opened False
        by (simp add: send_head_file_def Let_def h1_def h2_def h3_def h4_def)
      then show ?thesis
        using answers_end_headers [OF assms b] by simp
    qed
  qed
qed

lemma send_head_answers:
  assumes "good h"
  shows "answers h (send_head env h)"
proof (cases "isdir env (translate_path env (path h))")
  case False
  then show ?thesis
    using send_head_file_answers [OF assms] by (simp add: send_head_def Let_def)
next
  case dir: True
  show ?thesis
  proof (cases "urlsplit_path env (path h)")
    case (Inl e)
    with dir show ?thesis by (simp add: send_head_def Let_def answers_def)
  next
    case (Inr parts_path)
    show ?thesis
    proof (cases "endswith parts_path ''/''")
      case False
      define h1 where "h1 = send_response env 301 None h"
      define h2 where "h2 = send_header ''Location'' (redirect_url env (path h)) h1"
      define h3 where "h3 = send_header ''Content-Length'' ''0'' h2"
      have "buffers h h1" unfolding h1_def by (rule buffers_send_response)
      moreover have "buffers h1 h2" unfolding h2_def by (rule buffers_send_header) simp_all
      moreover have "buffers h2 h3" unfolding h3_def by (rule buffers_send_header) simp_all
      ultimately have b: "buffers h h3" by (blast intro: buffers_trans)
      have "send_head env h = returning None (end_headers h3)"
        using dir Inr False by (simp add: send_head_def Let_def h1_def h2_def h3_def)
      then show ?thesis
        using answers_end_headers [OF assms b] by simp
    next
      case True
      show ?thesis
      proof (cases "find (\<lambda>index. isfile env index)
          (map (join (translate_path env (path h))) [''index.html'', ''index.htm''])")
        case None
        then show ?thesis
          using dir Inr True list_directory_answers [OF assms]
          by (simp add: send_head_def Let_def)
      next
        case (Some index)
        then show ?thesis
          using dir Inr True send_head_file_answers [OF assms]
          by (simp add: send_head_def Let_def)
      qed
    qed
  qed
qed

lemma do_GET_answers:
  assumes "good h"
  shows "answers h (do_GET env h)"
proof (cases "send_head env h")
  case (Exc e h')
  then have "h' = h"
    using send_head_answers [OF assms, of env] by (simp add: answers_def)
  with Exc show ?thesis by (simp add: do_GET_def answers_def)
next
  case (Ok f h1)
  then have r: "responded h h1"
    using send_head_answers [OF assms, of env] by (simp add: answers_def)
  show ?thesis
    using Ok r by (cases f) (simp_all add: do_GET_def answers_def responded_copyfile)
qed

lemma do_HEAD_answers:
  assumes "good h"
  shows "answers h (do_HEAD env h)"
proof (cases "send_head env h")
  case (Exc e h')
  then have "h' = h"
    using send_head_answers [OF assms, of env] by (simp add: answers_def)
  with Exc show ?thesis by (simp add: do_HEAD_def answers_def)
next
  case (Ok f h1)
  then have "responded h h1"
    using send_head_answers [OF assms, of env] by (simp add: answers_def)
  with Ok show ?thesis by (simp add: do_HEAD_def answers_def)
qed

lemma idle_good: "idle h \<Longrightarrow> good h"
  by (simp add: idle_def good_def cors_once_def buf_of_def)

lemma idle_updates [simp]:
  "idle (h\<lparr>close_connection := b\<rparr>) = idle h"
  "idle (h\<lparr>request_version := v\<rparr>) = idle h"
  "idle (h\<lparr>command := c\<rparr>) = idle h"
  "idle (h\<lparr>path := p\<rparr>) = idle h"
  "idle (h\<lparr>headers := hs\<rparr>) = idle h"
  "idle (h\<lparr>requestline := rl\<rparr>) = idle h"
  by (simp_all add: idle_def)

lemma parsedE:
  assumes "parsed m"
  obtains ok h' where "m = Ok ok h'" "good h'" "\<not> ok \<or> idle h'"
  using assms by (cases m) (auto simp: parsed_def)

lemma parsed_send_error:
  assumes "good h"
  shows "parsed (returning False (send_error env code message explain h))"
proof -
  obtain h' where "send_error env code message explain h = Ok () h'" "responded h h'"
    using send_error_responded [OF assms] by blast
  then show ?thesis by (simp add: parsed_def responded_good)
qed

lemma parsed_idle: "idle h \<Longrightarrow> parsed (Ok ok h)"
  by (simp add: parsed_def idle_good)

lemma parse_version_good:
  assumes "idle h"
  shows "parsed (parse_version env ws h)"
proof (cases "length ws \<ge> 3")
  case False
  with assms show ?thesis by (simp add: parse_version_def parsed_idle)
next
  case len: True
  show ?thesis
  proof (cases "version_number (last ws)")
    case None
    with len show ?thesis
      using parsed_send_error [OF idle_good [OF assms]]
      by (simp add: parse_version_def Let_def)
  next
    case (Some mm)
    obtain major minor where mm: "mm = (major, minor)" by (cases mm)
    define h1 where "h1 = (if (major > 1 \<or> major = 1 \<and> minor \<ge> 1)
                           \<and> str_le ''HTTP/1.1'' protocol_version
                        then h\<lparr>close_connection := False\<rparr> else h)"
    have i1: "idle h1" using assms by (simp add: h1_def)
    show ?thesis
    proof (cases "major \<ge> 2")
      case True
      with len Some mm show ?thesis
        using parsed_send_error [OF idle_good [OF i1]]
        by (simp add: parse_version_def Let_def h1_def)
    next
      case False
      have "parse_version env ws h = Ok True (h1\<lparr>request_version := last ws\<rparr>)"
        using len Some mm False by (simp add: parse_version_def Let_def h1_def)
      then show ?thesis using i1 by (simp add: parsed_idle)
    qed
  qed
qed

lemma parse_command_good:
  assumes "idle h"
  shows "parsed (parse_command env ws h)"
proof (cases "2 \<le> length ws \<and> length ws \<le> 3")
  case False
  then show ?thesis
    using parsed_send_error [OF idle_good [OF assms]]
    by (simp add: parse_command_def)
next
  case len: True
  define h1 where "h1 = (if length ws = 2 then h\<lparr>close_connection := True\<rparr> else h)"
  have i1: "idle h1" using assms by (simp add: h1_def)
  show ?thesis
  proof (cases "length ws = 2 \<and> ws ! 0 \<noteq> ''GET''")
    case True
    with len show ?thesis
      using parsed_send_error [OF idle_good [OF i1]]
      by (simp add: parse_command_def Let_def h1_def)
  next
    case False
    have "parse_command env ws h =
        Ok True (h1\<lparr>command := Some (ws ! 0), path := reduce_slashes (ws ! 1)\<rparr>)"
      using len False by (auto simp: parse_command_def Let_def h1_def)
    then show ?thesis using i1 by (simp add: parsed_idle)
  qed
qed

lemma parse_headers_good:
  assumes "idle h"
  shows "parsed (parse_headers env hr h)"
proof (cases hr)
  case (Headers hs)
  with assms show ?thesis
    by (simp add: parse_headers_def Let_def parsed_idle)
next
  case (LineTooLong err)
  then show ?thesis
    using parsed_send_error [OF idle_good [OF assms]] by (simp add: parse_headers_def)
next
  case (HTTPException err)
  then show ?thesis
    using parsed_send_error [OF idle_good [OF assms]] by (simp add: parse_headers_def)
qed

lemma parse_request_good:
  assumes "idle h"
  shows "parsed (parse_request env req h)"
proof -
  define rl where "rl = rstrip_crlf (raw_requestline req)"
  define h0 where "h0 = h\<lparr>command := None, request_version := default_request_version,
                 close_connection := True, requestline := rl\<rparr>"
  have i0: "idle h0" using assms by (simp add: h0_def)
  have unfold: "parse_request env req h =
     (if length (split_ws rl) = 0 then Ok False h0
      else
        and_then (parse_version env (split_ws rl) h0) (\<lambda>ok h1.
          if \<not> ok then Ok False h1
          else
            and_then (parse_command env (split_ws rl) h1) (\<lambda>ok h2.
              if \<not> ok then Ok False h2
              else parse_headers env (header_lines req) h2)))"
    by (simp only: parse_request_def Let_def rl_def h0_def)
  show ?thesis
  proof (cases "length (split_ws rl) = 0")
    case True
    then show ?thesis
      using i0 unfold by (simp add: parsed_idle)
  next
    case nonempty: False
    obtain ok1 h1 where p1: "parse_version env (split_ws rl) h0 = Ok ok1 h1"
      and g1: "good h1" and i1: "\<not> ok1 \<or> idle h1"
      using parse_version_good [OF i0] by (rule parsedE)
    show ?thesis
    proof (cases ok1)
      case False
      then show ?thesis
        using nonempty p1 g1 unfold by (simp add: parsed_def)
    next
      case True
      then have "idle h1" using i1 by simp
      then obtain ok2 h2 where p2: "parse_command env (split_ws rl) h1 = Ok ok2 h2"
        and g2: "good h2" and i2: "\<not> ok2 \<or> idle h2"
        using parse_command_good by (blast elim: parsedE)
      show ?thesis
      proof (cases ok2)
        case False
        then show ?thesis
          using nonempty p1 True p2 g2 unfold by (simp add: parsed_def)
      next
        case ok2: True
        then have "idle h2" using i2 by simp
        then show ?thesis
          using nonempty p1 True p2 ok2 parse_headers_good unfold by simp
      qed
    qed
  qed
qed

text \<open>
  One request: the handler returns in a good state, or an exception leaves it with
  nothing sent.
\<close>

lemma handle_one_request_good:
  assumes "idle h"
  shows "case handle_one_request env req h of
           Ok u h' \<Rightarrow> good h'
         | Exc e h' \<Rightarrow> idle h'"
proof (cases "length (raw_requestline req) > 65536")
  case True
  have "idle (h\<lparr>requestline := [], request_version := [], command := Some []\<rparr>)"
    using assms by simp
  then obtain h' where
    "send_error env 414 None None
       (h\<lparr>requestline := [], request_version := [], command := Some []\<rparr>) = Ok () h'"
    "good h'"
    using send_error_responded idle_good responded_good by blast
  then show ?thesis
    using True by (simp add: handle_one_request_def)
next
  case long: False
  show ?thesis
  proof (cases "raw_requestline req = []")
    case True
    then show ?thesis
      using assms by (simp add: handle_one_request_def idle_good)
  next
    case nonempty: False
    obtain ok h1 where p: "parse_request env req h = Ok ok h1"
      and g1: "good h1" and i1: "\<not> ok \<or> idle h1"
      using parse_request_good [OF assms] by (rule parsedE)
    show ?thesis
    proof (cases ok)
      case False
      then show ?thesis
        using long nonempty p g1 by (simp add: handle_one_request_def)
    next
      case True
      then have i: "idle h1" using i1 by simp
      define cmd where "cmd = (case command h1 of None \<Rightarrow> [] | Some c \<Rightarrow> c)"
      define m where "m =
          (if cmd = ''GET'' then do_GET env h1
           else if cmd = ''HEAD'' then do_HEAD env h1
           else send_error env 501
                  (Some (''Unsupported method ('' @ repr env cmd @ '')'')) None h1)"
      obtain he where "send_error env 501
          (Some (''Unsupported method ('' @ repr env cmd @ '')'')) None h1 = Ok () he"
        and "responded h1 he"
        using send_error_responded [OF g1] by blast
      then have "answers h1 (send_error env 501
          (Some (''Unsupported method ('' @ repr env cmd @ '')'')) None h1)"
        by (simp add: answers_def)
      then have "answers h1 m"
        using do_GET_answers [OF g1, of env] do_HEAD_answers [OF g1, of env]
        by (simp add: m_def)
      then have "case m of Ok u h' \<Rightarrow> good h' | Exc e h' \<Rightarrow> idle h'"
        using i by (cases m) (simp_all add: answers_def responded_good)
      moreover have "handle_one_request env req h = m"
        using long nonempty p True by (simp add: handle_one_request_def Let_def cmd_def m_def)
      ultimately show ?thesis by simp
    qed
  qed
qed

subsection \<open>Evaluating requests\<close>

lemma words_of_requests:
  "split_ws (rstrip_crlf (raw_requestline simple_request)) = [''GET'', ''/index.html'']"
  "split_ws (rstrip_crlf (raw_requestline get_index))
     = [''GET'', ''/index.html'', ''HTTP/1.1'']"
  "split_ws (rstrip_crlf (raw_requestline conditional_get))
     = [''GET'', ''/index.html'', ''HTTP/1.1'']"
  "split_ws (rstrip_crlf (raw_requestline get_missing)) = [''GET'', ''/nope'', ''HTTP/1.1'']"
  "split_ws (rstrip_crlf (raw_requestline post_missing))
     = [''POST'', ''/nope'', ''HTTP/1.1'']"
  "split_ws (rstrip_crlf (raw_requestline get_null_path))
     = [''GET'', ''/a'' @ [CHR 0x00] @ ''b'', ''HTTP/1.1'']"
  by (simp_all add: simple_request_def get_index_def conditional_get_def get_missing_def
      post_missing_def get_null_path_def split_ws_def rstrip_crlf_def CRLF_def isspace_def)

lemma short_requests:
  "length (raw_requestline simple_request) \<le> 65536"
  "length (raw_requestline get_index) \<le> 65536"
  "length (raw_requestline conditional_get) \<le> 65536"
  "length (raw_requestline get_missing) \<le> 65536"
  "length (raw_requestline post_missing) \<le> 65536"
  "length (raw_requestline get_null_path) \<le> 65536"
  by (simp_all add: simple_request_def get_index_def conditional_get_def get_missing_def
      post_missing_def get_null_path_def CRLF_def)

lemma version_number_11: "version_number ''HTTP/1.1'' = Some (1, 1)"
  by (simp add: version_number_def startswith_def base_version_number_def isdigit_def
      int_py_def digit_value_def Let_def)

subsection \<open>What the buffering steps leave in the handler\<close>

lemma send_header_fields [simp]:
  "request_version (send_header keyword val h) = request_version h"
  "wfile (send_header keyword val h) = wfile h"
  "command (send_header keyword val h) = command h"
  "headers (send_header keyword val h) = headers h"
  "path (send_header keyword val h) = path h"
  "buf_of (send_header keyword val h) =
     (if request_version h \<noteq> ''HTTP/0.9'' then buf_of h @ [header_line keyword val]
      else buf_of h)"
  by (simp_all add: send_header_def Let_def buf_of_def buffer_append_def)

lemma send_response_only_fields [simp]:
  "request_version (send_response_only code message h) = request_version h"
  "wfile (send_response_only code message h) = wfile h"
  "command (send_response_only code message h) = command h"
  "headers (send_response_only code message h) = headers h"
  "path (send_response_only code message h) = path h"
  by (simp_all add: send_response_only_def)

lemma send_response_fields [simp]:
  "request_version (send_response env code message h) = request_version h"
  "wfile (send_response env code message h) = wfile h"
  "command (send_response env code message h) = command h"
  "headers (send_response env code message h) = headers h"
  "path (send_response env code message h) = path h"
  by (simp_all add: send_response_def)

lemma send_response_buf:
  "request_version h \<noteq> ''HTTP/0.9'' \<Longrightarrow>
   buf_of (send_response env code (Some message) h) =
     buf_of h @ [status_line code message, header_line ''Server'' (version_string env),
                 header_line ''Date'' (date_time_string env None)]"
  by (simp add: send_response_def send_response_only_def)

lemma send_response_buf_default:
  "request_version h \<noteq> ''HTTP/0.9'' \<Longrightarrow> responses code = Some (short, long) \<Longrightarrow>
   buf_of (send_response env code None h) =
     buf_of h @ [status_line code short, header_line ''Server'' (version_string env),
                 header_line ''Date'' (date_time_string env None)]"
  by (simp add: send_response_def send_response_only_def)

lemma end_headers_wfile:
  "request_version h \<noteq> ''HTTP/0.9'' \<Longrightarrow>
   \<exists>h'. end_headers h = Ok () h' \<and> command h' = command h
        \<and> wfile h' = wfile h @ [WriteJoined (buf_of h @ [cors_line, CRLF])]"
  by (simp add: end_headers_eq)

lemma end_headers_old:
  "request_version h = ''HTTP/0.9'' \<Longrightarrow> end_headers h = Ok () h"
  by (simp add: end_headers_eq)

lemma status_lines:
  "status_line 200 ''OK'' = ''HTTP/1.0 200 OK'' @ CRLF"
  "status_line 304 ''Not Modified'' = ''HTTP/1.0 304 Not Modified'' @ CRLF"
  "status_line 404 ''File not found'' = ''HTTP/1.0 404 File not found'' @ CRLF"
  by (simp_all add: status_line_def protocol_version_def
      str_nat.simps[of 200] str_nat.simps[of 20] str_nat.simps[of 2]
      str_nat.simps[of 304] str_nat.simps[of 30] str_nat.simps[of 3]
      str_nat.simps[of 404] str_nat.simps[of 40] str_nat.simps[of 4])

subsection \<open>A request line of three words with a version below 2.0\<close>

lemma parse_request_three:
  assumes "split_ws (rstrip_crlf (raw_requestline req)) = [cmd, p, v]"
    and "version_number v = Some (major, minor)" and "major < 2"
    and "header_lines req = Headers hs"
  shows "parse_request env req h =
     Ok True
       (h\<lparr>command := Some cmd, request_version := v, close_connection := True,
          requestline := rstrip_crlf (raw_requestline req), path := reduce_slashes p,
          headers := hs\<rparr>)"
  using assms
  by (simp add: parse_request_def parse_version_def parse_command_def parse_headers_def
      Let_def)

lemma parsed_fields [simp]:
  "request_version
     (h\<lparr>command := c, request_version := v, close_connection := b, requestline := rl,
        path := p, headers := hs\<rparr>) = v"
  "wfile
     (h\<lparr>command := c, request_version := v, close_connection := b, requestline := rl,
        path := p, headers := hs\<rparr>) = wfile h"
  "buf_of
     (h\<lparr>command := c, request_version := v, close_connection := b, requestline := rl,
        path := p, headers := hs\<rparr>) = buf_of h"
  by (simp_all add: buf_of_def)

lemma new_handler_fields [simp]: "wfile new_handler = []" "buf_of new_handler = []"
  by (simp_all add: new_handler_def buf_of_def)

lemma idle_new_handler: "idle new_handler"
  by (simp add: idle_def new_handler_def)

lemma serve_three:
  assumes "length (raw_requestline req) \<le> 65536"
    and "split_ws (rstrip_crlf (raw_requestline req)) = [cmd, p, v]"
    and "version_number v = Some (major, minor)" and "major < 2"
    and "header_lines req = Headers hs"
    and "h1 = new_handler\<lparr>command := Some cmd, request_version := v,
          close_connection := True, requestline := rstrip_crlf (raw_requestline req),
          path := reduce_slashes p, headers := hs\<rparr>"
  shows "serve env req =
     (if cmd = ''GET'' then do_GET env h1
      else if cmd = ''HEAD'' then do_HEAD env h1
      else send_error env 501
             (Some (''Unsupported method ('' @ repr env cmd @ '')'')) None h1)"
proof -
  have "raw_requestline req \<noteq> []"
    using assms(2) by (auto simp: rstrip_crlf_def split_ws_def)
  then show ?thesis
    using assms(1,6) parse_request_three [OF assms(2-5)]
    by (simp add: serve_def handle_one_request_def Let_def)
qed

lemma send_error_wfile:
  assumes "request_version h \<noteq> ''HTTP/0.9''" "200 \<le> code" "code \<noteq> 204" "code \<noteq> 205"
    "code \<noteq> 304" "responses code = Some (short, long)"
    "page = error_page env code message long"
  shows "\<exists>h'. send_error env code (Some message) None h = Ok () h' \<and>
     wfile h' =
       wfile h @
       WriteJoined
         (buf_of h @
          [status_line code message, header_line ''Server'' (version_string env),
           header_line ''Date'' (date_time_string env None),
           header_line ''Connection'' ''close'',
           header_line ''Content-Type'' ''text/html;charset=utf-8'',
           header_line ''Content-Length'' (str_nat (length page)), cors_line, CRLF])
       # (if command h \<noteq> Some ''HEAD'' \<and> page \<noteq> [] then [Write page] else [])"
  using assms
  by (simp add: send_error_def Let_def end_headers_eq send_response_buf write_body_def
      error_content_type_def)

lemma send_head_file_ok:
  assumes "request_version h \<noteq> ''HTTP/0.9''"
    and "stat env p = Some (File f)" "readable f" "\<not> endswith p ''/''"
    and "\<not> not_modified env (headers h) f" and "open_refuses env p = None"
  shows "\<exists>h'. send_head_file env p h = Ok (Some (content f)) h' \<and>
     wfile h' =
       wfile h @
       [WriteJoined
         (buf_of h @
          [''HTTP/1.0 200 OK'' @ CRLF, header_line ''Server'' (version_string env),
           header_line ''Date'' (date_time_string env None),
           header_line ''Content-type'' (guess_type env p),
           header_line ''Content-Length'' (str_nat (length (content f))),
           header_line ''Last-Modified'' (date_time_string env (Some (st_mtime f))),
           cors_line, CRLF])]"
  using assms
  by (simp add: send_head_file_def Let_def open_rb_def end_headers_eq
      send_response_buf_default [where short = "''OK''"] responses_def status_lines)

lemma send_head_file_not_modified:
  assumes "request_version h \<noteq> ''HTTP/0.9''"
    and "stat env p = Some (File f)" "readable f" "\<not> endswith p ''/''"
    and "not_modified env (headers h) f" and "open_refuses env p = None"
  shows "\<exists>h'. send_head_file env p h = Ok None h' \<and>
     wfile h' =
       wfile h @
       [WriteJoined
         (buf_of h @
          [''HTTP/1.0 304 Not Modified'' @ CRLF, header_line ''Server'' (version_string env),
           header_line ''Date'' (date_time_string env None), cors_line, CRLF])]"
  using assms
  by (simp add: send_head_file_def Let_def open_rb_def end_headers_eq
      send_response_buf_default [where short = "''Not Modified''"] responses_def status_lines)

lemma send_head_file_missing:
  assumes "request_version h \<noteq> ''HTTP/0.9''" and "stat env p = None"
    and "page = error_page env 404 ''File not found'' ''Nothing matches the given URI''"
    and "endswith p ''/'' \<or> open_refuses env p = None"
  shows "\<exists>h'. send_head_file env p h = Ok None h' \<and>
     wfile h' =
       wfile h @
       WriteJoined
         (buf_of h @
          [''HTTP/1.0 404 File not found'' @ CRLF, header_line ''Server'' (version_string env),
           header_line ''Date'' (date_time_string env None),
           header_line ''Connection'' ''close'',
           header_line ''Content-Type'' ''text/html;charset=utf-8'',
           header_line ''Content-Length'' (str_nat (length page)), cors_line, CRLF])
       # (if command h \<noteq> Some ''HEAD'' \<and> page \<noteq> [] then [Write page] else [])"
proof -
  have r: "responses 404 = Some (''Not Found'', ''Nothing matches the given URI'')"
    by (simp add: responses_def)
  obtain h' where "send_error env 404 (Some ''File not found'') None h = Ok () h'"
    and "wfile h' =
       wfile h @
       WriteJoined
         (buf_of h @
          [status_line 404 ''File not found'', header_line ''Server'' (version_string env),
           header_line ''Date'' (date_time_string env None),
           header_line ''Connection'' ''close'',
           header_line ''Content-Type'' ''text/html;charset=utf-8'',
           header_line ''Content-Length'' (str_nat (length page)), cors_line, CRLF])
       # (if command h \<noteq> Some ''HEAD'' \<and> page \<noteq> [] then [Write page] else [])"
    using send_error_wfile [OF assms(1) _ _ _ _ r assms(3)] by auto
  then show ?thesis
    using assms(2,4) by (auto simp: send_head_file_def Let_def open_rb_def status_lines)
qed

lemma site_fields [simp]:
  "translate_path site p = ''/srv'' @ p"
  "guess_type site p = ''text/html''"
  "version_string site = ''SimpleHTTP/0.6 Python/3.11.10''"
  "date_time_string site None = ''Tue, 03 Nov 2026 16:43:04 GMT''"
  "date_time_string site (Some t) = ''Thu, 01 Jan 1970 00:16:40 GMT''"
  "error_page site code message explain = ''<p>'' @ message @ ''</p>''"
  "repr site s = [CHR 0x27] @ s @ [CHR 0x27]"
  "parsedate site ''Fri, 01 Jan 2100 00:00:00 GMT'' = Utc 4102444800"
  "stat site ''/srv/index.html'' = Some (File index_html)"
  "stat site ''/srv/nope'' = None"
  "stat site (''/srv/a'' @ [CHR 0x00] @ ''b'') = None"
  "open_refuses site ''/srv/index.html'' = None"
  "open_refuses site ''/srv/nope'' = None"
  "open_refuses site (''/srv/a'' @ [CHR 0x00] @ ''b'') = Some ValueError"
  by (simp_all add: site_def)

lemma index_html_fields [simp]:
  "content index_html = ''<h1>hi</h1>''" "st_mtime index_html = 1000" "readable index_html"
  by (simp_all add: index_html_def)

lemma request_headers:
  "header_lines simple_request = Headers no_headers"
  "header_lines get_index = Headers no_headers"
  "header_lines conditional_get =
     Headers (no_headers\<lparr>If_Modified_Since := Some ''Fri, 01 Jan 2100 00:00:00 GMT''\<rparr>)"
  "header_lines get_missing = Headers no_headers"
  "header_lines post_missing = Headers no_headers"
  "header_lines get_null_path = Headers no_headers"
  by (simp_all add: simple_request_def get_index_def conditional_get_def get_missing_def
      post_missing_def get_null_path_def)

lemma reduce_slashes_plain [simp]:
  "reduce_slashes ''/index.html'' = ''/index.html''" "reduce_slashes ''/nope'' = ''/nope''"
  "reduce_slashes (''/a'' @ [CHR 0x00] @ ''b'') = ''/a'' @ [CHR 0x00] @ ''b''"
  by (simp_all add: reduce_slashes_def startswith_def)

subsection \<open>A request line of two words: HTTP/0.9\<close>

lemma parse_request_two:
  assumes "split_ws (rstrip_crlf (raw_requestline req)) = [''GET'', p]"
    and "header_lines req = Headers hs"
  shows "parse_request env req h =
     Ok True
       (h\<lparr>command := Some ''GET'', request_version := ''HTTP/0.9'', close_connection := True,
          requestline := rstrip_crlf (raw_requestline req), path := reduce_slashes p,
          headers := hs\<rparr>)"
  using assms
  by (simp add: parse_request_def parse_version_def parse_command_def parse_headers_def
      Let_def default_request_version_def)

lemma send_head_file_old:
  assumes "request_version h = ''HTTP/0.9''"
    and "stat env p = Some (File f)" "readable f" "\<not> endswith p ''/''"
    and "\<not> not_modified env (headers h) f" and "open_refuses env p = None"
  shows "\<exists>h'. send_head_file env p h = Ok (Some (content f)) h' \<and> wfile h' = wfile h"
  using assms
  by (simp add: send_head_file_def Let_def open_rb_def end_headers_old)

lemma serve_two:
  assumes "length (raw_requestline req) \<le> 65536"
    and "split_ws (rstrip_crlf (raw_requestline req)) = [''GET'', p]"
    and "header_lines req = Headers hs"
    and "stat env (translate_path env (reduce_slashes p)) = Some (File f)"
    and "readable f"
    and "\<not> endswith (translate_path env (reduce_slashes p)) ''/''"
    and "\<not> not_modified env hs f"
    and "open_refuses env (translate_path env (reduce_slashes p)) = None"
    and "content f \<noteq> []"
  shows "\<exists>h'. serve env req = Ok () h' \<and> wfile h' = [Write (content f)]"
proof -
  define h1 where "h1 = new_handler\<lparr>command := Some ''GET'', request_version := ''HTTP/0.9'',
          close_connection := True, requestline := rstrip_crlf (raw_requestline req),
          path := reduce_slashes p, headers := hs\<rparr>"
  have "raw_requestline req \<noteq> []"
    using assms(2) by (auto simp: rstrip_crlf_def split_ws_def)
  then have s: "serve env req = do_GET env h1"
    using assms(1) parse_request_two [OF assms(2,3)]
    by (simp add: serve_def handle_one_request_def Let_def h1_def)
  have "\<exists>h'. send_head_file env (translate_path env (reduce_slashes p)) h1
        = Ok (Some (content f)) h' \<and> wfile h' = wfile h1"
    using assms(4-8) by (intro send_head_file_old) (simp_all add: h1_def)
  then obtain h' where
    "send_head_file env (translate_path env (reduce_slashes p)) h1 = Ok (Some (content f)) h'"
    and "wfile h' = []"
    by (auto simp: h1_def)
  moreover have "send_head env h1 =
      send_head_file env (translate_path env (reduce_slashes p)) h1"
    using assms(4) by (simp add: send_head_def isdir_def h1_def)
  ultimately show ?thesis
    using s assms(9) by (simp add: do_GET_def copyfile_def write_body_def)
qed

lemma no_headers_fields [simp]:
  "If_Modified_Since no_headers = None" "If_None_Match no_headers = None"
  by (simp_all add: no_headers_def)

lemma index_path [simp]: "\<not> endswith ''/srv/index.html'' ''/''"
  by (simp add: endswith_def)

lemma cors_line_eq: "cors_line = ''Access-Control-Allow-Origin: *'' @ CRLF"
  by (simp add: cors_line_def header_line_def)

subsection \<open>A path that \<open>open\<close> refuses\<close>

lemma serve_get_null_path:
  "serve site get_null_path =
     Exc ValueError
       (new_handler\<lparr>command := Some ''GET'', request_version := ''HTTP/1.1'',
          close_connection := True,
          requestline := rstrip_crlf (raw_requestline get_null_path),
          path := ''/a'' @ [CHR 0x00] @ ''b'', headers := no_headers\<rparr>)"
proof -
  define h1 where "h1 = new_handler\<lparr>command := Some ''GET'', request_version := ''HTTP/1.1'',
          close_connection := True,
          requestline := rstrip_crlf (raw_requestline get_null_path),
          path := reduce_slashes (''/a'' @ [CHR 0x00] @ ''b''), headers := no_headers\<rparr>"
  have "serve site get_null_path =
     (if ''GET'' = ''GET'' then do_GET site h1
      else if ''GET'' = ''HEAD'' then do_HEAD site h1
      else send_error site 501
             (Some (''Unsupported method ('' @ repr site ''GET'' @ '')'')) None h1)"
    by (rule serve_three [OF short_requests(6) words_of_requests(6) version_number_11])
      (simp_all add: request_headers h1_def)
  then have s: "serve site get_null_path = do_GET site h1"
    by simp
  have "open_rb site (''/srv/a'' @ [CHR 0x00] @ ''b'') = OpenRaised ValueError"
    using site_fields(14) by (simp only: open_rb_def option.case)
  moreover have "\<not> endswith (''/srv/a'' @ [CHR 0x00] @ ''b'') ''/''"
    by (simp add: endswith_def)
  ultimately have "send_head_file site (''/srv/a'' @ [CHR 0x00] @ ''b'') h1 = Exc ValueError h1"
    by (simp only: send_head_file_def Let_def if_False opened.case)
  moreover have "send_head site h1 =
      send_head_file site (''/srv/a'' @ [CHR 0x00] @ ''b'') h1"
    using site_fields(11) reduce_slashes_plain(3)
    by (simp add: send_head_def isdir_def h1_def)
  ultimately show ?thesis
    using s reduce_slashes_plain(3) by (simp add: do_GET_def h1_def)
qed

subsection \<open>Claims about the handler\<close>

text \<open>
  C1, as stated: every response carries the header
  \<open>Access-Control-Allow-Origin: *\<close>. The override calls \<open>send_header\<close>
  without a condition, but \<open>send_header\<close> and the inherited
  \<open>end_headers\<close> do nothing while the request version is \<open>HTTP/0.9\<close>: for
  a request line of two words (\<open>GET /index.html\<close>, an HTTP/0.9 request) the
  handler returns and the whole response is the content of the file; no status line and
  no header is sent.
\<close>

theorem cors_header_in_every_response_counterexample:
  "completed (serve site simple_request)
   \<and> wfile (final (serve site simple_request)) = [Write ''<h1>hi</h1>'']
   \<and> response_bytes (final (serve site simple_request)) = ''<h1>hi</h1>''"
proof -
  have "\<exists>h'. serve site simple_request = Ok () h' \<and> wfile h' = [Write (content index_html)]"
    by (rule serve_two [OF short_requests(1) words_of_requests(1) request_headers(1)])
      (simp_all add: not_modified_def)
  then show ?thesis
    by (auto simp: response_bytes_def)
qed

text \<open>
  C1, amended: for every request, when the handler returns, every header block it has
  written, whatever the status and the path, holds the line
  \<open>Access-Control-Allow-Origin: *\<close> exactly once; if the request version it has
  recorded is \<open>HTTP/0.9\<close> (a request line of two words, or an error found before
  the version was recorded) it has written no header block, that is no status line and
  no header, and otherwise whatever it has written starts with a header block. When an
  exception leaves the handler instead (\<open>open\<close> or \<open>urlsplit\<close> refusing the
  path, a directory listing that cannot be encoded), nothing has been written.
\<close>

theorem cors_header_once_in_every_header_block:
  "case serve env req of
     Ok u h' \<Rightarrow>
       list_all (\<lambda>ls. count_list ls (''Access-Control-Allow-Origin: *'' @ CRLF) = 1)
         (header_blocks (wfile h'))
       \<and> (if request_version h' = ''HTTP/0.9'' then header_blocks (wfile h') = []
          else wfile h' = [] \<or> starts_with_block (wfile h'))
   | Exc e h' \<Rightarrow> wfile h' = []"
proof (cases "serve env req")
  case (Ok u h')
  then have "good h'"
    using handle_one_request_good [OF idle_new_handler, of env req] by (simp add: serve_def)
  then show ?thesis
    using Ok by (simp add: good_def cors_once_def cors_line_eq)
next
  case (Exc e h')
  then have "idle h'"
    using handle_one_request_good [OF idle_new_handler, of env req] by (simp add: serve_def)
  then show ?thesis
    using Exc by (simp add: idle_def)
qed

theorem cors_header_once_in_every_header_block_witness:
  "list_all (\<lambda>ls. count_list ls (''Access-Control-Allow-Origin: *'' @ CRLF) = 1)
     (header_blocks (wfile (final (serve site simple_request))))
   \<and> header_blocks (wfile (final (serve site simple_request))) = []
   \<and> \<not> completed (serve site get_null_path)
   \<and> wfile (final (serve site get_null_path)) = []"
proof -
  obtain h' where s: "serve site simple_request = Ok () h'"
    and w: "wfile h' = [Write (content index_html)]"
    using serve_two [OF short_requests(1) words_of_requests(1) request_headers(1),
        of site index_html]
    by (auto simp: not_modified_def)
  have "request_version h' = ''HTTP/0.9'' \<or> request_version h' \<noteq> ''HTTP/0.9''"
    by simp
  then have 1: "list_all (\<lambda>ls. count_list ls (''Access-Control-Allow-Origin: *'' @ CRLF) = 1)
      (header_blocks (wfile h')) \<and> header_blocks (wfile h') = []"
    using cors_header_once_in_every_header_block [of site simple_request] s w
    by (auto split: if_splits)
  have 2: "wfile (final (serve site get_null_path)) = []"
    using cors_header_once_in_every_header_block [of site get_null_path]
    by (simp add: serve_get_null_path)
  have 3: "\<not> completed (serve site get_null_path)"
    by (simp add: serve_get_null_path)
  show ?thesis
    using 1 2 3 s by simp
qed




text \<open>
  C3, as stated: every request for a path that names nothing is answered with status
  404. The method is looked at first: \<open>Handler\<close> has \<open>do_GET\<close> and
  \<open>do_HEAD\<close> only, and a request with another method is answered with status 501,
  whatever its path.
\<close>

theorem missing_path_is_404_counterexample:
  "stat site (translate_path site ''/nope'') = None
   \<and> completed (serve site post_missing)
   \<and> wfile (final (serve site post_missing)) =
       [WriteJoined
          [''HTTP/1.0 501 Unsupported method ('' @ [CHR 0x27] @ ''POST'' @ [CHR 0x27]
             @ '')'' @ CRLF,
           header_line ''Server'' ''SimpleHTTP/0.6 Python/3.11.10'',
           header_line ''Date'' ''Tue, 03 Nov 2026 16:43:04 GMT'',
           header_line ''Connection'' ''close'',
           header_line ''Content-Type'' ''text/html;charset=utf-8'',
           header_line ''Content-Length'' ''34'',
           cors_line, CRLF],
        Write (''<p>Unsupported method ('' @ [CHR 0x27] @ ''POST'' @ [CHR 0x27]
               @ '')</p>'')]"
proof -
  define h1 where "h1 = new_handler\<lparr>command := Some ''POST'', request_version := ''HTTP/1.1'',
          close_connection := True,
          requestline := rstrip_crlf (raw_requestline post_missing),
          path := reduce_slashes ''/nope'', headers := no_headers\<rparr>"
  define message where "message = ''Unsupported method ('' @ repr site ''POST'' @ '')''"
  define page where
    "page = error_page site 501 message ''Server does not support this operation''"
  have "serve site post_missing =
     (if ''POST'' = ''GET'' then do_GET site h1
      else if ''POST'' = ''HEAD'' then do_HEAD site h1
      else send_error site 501
             (Some (''Unsupported method ('' @ repr site ''POST'' @ '')'')) None h1)"
    by (rule serve_three [OF short_requests(5) words_of_requests(5) version_number_11])
      (simp_all add: request_headers h1_def)
  then have s: "serve site post_missing = send_error site 501 (Some message) None h1"
    by (simp add: message_def)
  have three: "str_nat 3 = ''3''" and four: "str_nat 4 = ''4''" and five: "str_nat 5 = ''5''"
    by (simp_all add: str_nat.simps[of 3] str_nat.simps[of 4] str_nat.simps[of 5])
  have n34: "str_nat 34 = ''34''"
    by (simp add: str_nat.simps[of 34] three four)
  have n501: "str_nat 501 = ''501''"
    by (simp add: str_nat.simps[of 501] str_nat.simps[of 50] str_nat.simps[of 5])
  have len: "length page = 34"
    by (simp add: page_def message_def)
  have "\<exists>h'. send_error site 501 (Some message) None h1 = Ok () h' \<and>
     wfile h' =
       wfile h1 @
       WriteJoined
         (buf_of h1 @
          [status_line 501 message, header_line ''Server'' (version_string site),
           header_line ''Date'' (date_time_string site None),
           header_line ''Connection'' ''close'',
           header_line ''Content-Type'' ''text/html;charset=utf-8'',
           header_line ''Content-Length'' (str_nat (length page)), cors_line, CRLF])
       # (if command h1 \<noteq> Some ''HEAD'' \<and> page \<noteq> [] then [Write page] else [])"
    by (rule send_error_wfile [where long = "''Server does not support this operation''"])
      (simp_all add: h1_def responses_def page_def)
  then obtain h' where "send_error site 501 (Some message) None h1 = Ok () h'"
    and "wfile h' =
       [WriteJoined
          [status_line 501 message, header_line ''Server'' ''SimpleHTTP/0.6 Python/3.11.10'',
           header_line ''Date'' ''Tue, 03 Nov 2026 16:43:04 GMT'',
           header_line ''Connection'' ''close'',
           header_line ''Content-Type'' ''text/html;charset=utf-8'',
           header_line ''Content-Length'' ''34'', cors_line, CRLF],
        Write page]"
    unfolding len n34 by (auto simp: h1_def page_def)
  then show ?thesis
    using s by (simp add: status_line_def protocol_version_def n501 message_def page_def)
qed

text \<open>
  C3, amended. Let the request line be at most 65536 bytes long and consist of three
  words, \<open>GET\<close> or \<open>HEAD\<close>, a path and a version; let the version be
  \<open>HTTP/\<close>, digits, a dot, digits (at most ten digits each), with a major number
  below 2, and not be the string \<open>HTTP/0.9\<close> (\<open>version_number\<close>); let the
  header lines be read without an exception; let the translated path name neither a file
  nor a directory, and either end in a slash or be a name that \<open>open\<close> does not
  refuse. Then the handler returns, and the response is the status line
  \<open>HTTP/1.0 404 File not found\<close> with the headers, followed for GET by the error
  page.
\<close>

theorem missing_path_is_404:
  assumes "length (raw_requestline req) \<le> 65536"
    and "split_ws (rstrip_crlf (raw_requestline req)) = [cmd, p, v]"
    and "cmd = ''GET'' \<or> cmd = ''HEAD''"
    and "version_number v = Some (major, minor)" and "major < 2" and "v \<noteq> ''HTTP/0.9''"
    and "header_lines req = Headers hs"
    and "stat env (translate_path env (reduce_slashes p)) = None"
    and "endswith (translate_path env (reduce_slashes p)) ''/''
         \<or> open_refuses env (translate_path env (reduce_slashes p)) = None"
    and "page = error_page env 404 ''File not found'' ''Nothing matches the given URI''"
  shows "\<exists>h'. serve env req = Ok () h' \<and>
     wfile h' =
       WriteJoined
         [''HTTP/1.0 404 File not found'' @ CRLF,
          header_line ''Server'' (version_string env),
          header_line ''Date'' (date_time_string env None),
          header_line ''Connection'' ''close'',
          header_line ''Content-Type'' ''text/html;charset=utf-8'',
          header_line ''Content-Length'' (str_nat (length page)),
          ''Access-Control-Allow-Origin: *'' @ CRLF, CRLF]
       # (if cmd = ''GET'' \<and> page \<noteq> [] then [Write page] else [])"
proof -
  define h1 where "h1 = new_handler\<lparr>command := Some cmd, request_version := v,
          close_connection := True, requestline := rstrip_crlf (raw_requestline req),
          path := reduce_slashes p, headers := hs\<rparr>"
  have s: "serve env req = (if cmd = ''GET'' then do_GET env h1 else do_HEAD env h1)"
    using serve_three [OF assms(1,2,4,5,7) h1_def] assms(3) by auto
  have "\<exists>h'. send_head_file env (translate_path env (reduce_slashes p)) h1 = Ok None h' \<and>
     wfile h' =
       wfile h1 @
       WriteJoined
         (buf_of h1 @
          [''HTTP/1.0 404 File not found'' @ CRLF, header_line ''Server'' (version_string env),
           header_line ''Date'' (date_time_string env None),
           header_line ''Connection'' ''close'',
           header_line ''Content-Type'' ''text/html;charset=utf-8'',
           header_line ''Content-Length'' (str_nat (length page)), cors_line, CRLF])
       # (if command h1 \<noteq> Some ''HEAD'' \<and> page \<noteq> [] then [Write page] else [])"
    using assms(6,8,9,10) by (intro send_head_file_missing) (simp_all add: h1_def)
  then obtain h' where
    f: "send_head_file env (translate_path env (reduce_slashes p)) h1 = Ok None h'"
    and w: "wfile h' =
       WriteJoined
         [''HTTP/1.0 404 File not found'' @ CRLF, header_line ''Server'' (version_string env),
          header_line ''Date'' (date_time_string env None),
          header_line ''Connection'' ''close'',
          header_line ''Content-Type'' ''text/html;charset=utf-8'',
          header_line ''Content-Length'' (str_nat (length page)),
          ''Access-Control-Allow-Origin: *'' @ CRLF, CRLF]
       # (if cmd \<noteq> ''HEAD'' \<and> page \<noteq> [] then [Write page] else [])"
    by (auto simp: h1_def cors_line_eq)
  have "send_head env h1 = send_head_file env (translate_path env (reduce_slashes p)) h1"
    using assms(8) by (simp add: send_head_def isdir_def h1_def)
  then have "serve env req = Ok () h'"
    using s f by (simp add: do_GET_def do_HEAD_def)
  moreover have "(cmd \<noteq> ''HEAD'') = (cmd = ''GET'')"
    using assms(3) by auto
  ultimately show ?thesis
    using w by simp
qed

theorem missing_path_is_404_witness:
  "completed (serve site get_missing)
   \<and> wfile (final (serve site get_missing)) =
       [WriteJoined
          [''HTTP/1.0 404 File not found'' @ CRLF,
           header_line ''Server'' ''SimpleHTTP/0.6 Python/3.11.10'',
           header_line ''Date'' ''Tue, 03 Nov 2026 16:43:04 GMT'',
           header_line ''Connection'' ''close'',
           header_line ''Content-Type'' ''text/html;charset=utf-8'',
           header_line ''Content-Length'' ''21'',
           ''Access-Control-Allow-Origin: *'' @ CRLF, CRLF],
        Write ''<p>File not found</p>'']"
proof -
  have one: "str_nat (Suc 0) = ''1''"
    by (simp add: str_nat.simps[of "Suc 0"])
  have two: "str_nat 2 = ''2''"
    by (simp add: str_nat.simps[of 2])
  have n21: "str_nat 21 = ''21''"
    by (simp add: str_nat.simps[of 21] one two)
  have len: "length ''<p>File not found</p>'' = 21"
    by simp
  have "\<exists>h'. serve site get_missing = Ok () h' \<and>
     wfile h' =
       WriteJoined
         [''HTTP/1.0 404 File not found'' @ CRLF,
          header_line ''Server'' (version_string site),
          header_line ''Date'' (date_time_string site None),
          header_line ''Connection'' ''close'',
          header_line ''Content-Type'' ''text/html;charset=utf-8'',
          header_line ''Content-Length'' (str_nat (length ''<p>File not found</p>'')),
          ''Access-Control-Allow-Origin: *'' @ CRLF, CRLF]
       # (if ''GET'' = ''GET'' \<and> ''<p>File not found</p>'' \<noteq> []
          then [Write ''<p>File not found</p>''] else [])"
    by (rule missing_path_is_404 [OF short_requests(4) words_of_requests(4) _
          version_number_11 _ _ request_headers(4)])
      simp_all
  then show ?thesis
    unfolding len n21 by auto
qed

end
